theory Spec2Isabelle
  imports
    Complex_Main
    "HOL-Library.Char_ord"
    "HOL-Library.List_Lexorder"
    "HOL-Library.Product_Lexorder"
    "HOL-Library.Multiset"
    "HOL-Library.Sublist"
begin

section \<open>Strings\<close>

text \<open>
  A Python \<^verbatim>\<open>str\<close> is modelled by its UTF-8 byte sequence, a \<^typ>\<open>string\<close>.
  Equality of strings and their lexicographic order (by code point in Python, by byte
  here, through \<^theory_text>\<open>Char_ord\<close> and \<^theory_text>\<open>List_Lexorder\<close>) agree under this encoding.

  The program calls two methods of \<^verbatim>\<open>str\<close>, \<^verbatim>\<open>lower\<close> and \<^verbatim>\<open>strip\<close>. Both belong to the
  Python runtime and follow the Unicode tables of its version: \<^verbatim>\<open>lower\<close> maps every cased
  character, \<^verbatim>\<open>strip\<close> removes at both ends every character for which \<^verbatim>\<open>isspace\<close> holds,
  ASCII or not. The model takes the two methods as a parameter, the record \<open>R\<close> of the
  functions that follow; nothing is assumed of them, so that every theorem stated for
  \<open>R\<close> holds of the methods whatever the runtime's tables are.
\<close>

record runtime =
  lower :: "string \<Rightarrow> string"
  strip :: "string \<Rightarrow> string"

text \<open>
  On a string of ASCII characters the two methods do what the functions below do:
  \<^verbatim>\<open>lower\<close> maps \<^verbatim>\<open>A\<close>..\<^verbatim>\<open>Z\<close> to \<^verbatim>\<open>a\<close>..\<^verbatim>\<open>z\<close>, and \<^verbatim>\<open>strip\<close> removes the characters
  0x09-0x0D, 0x1C-0x1F and 0x20 at both ends. The record \<open>ascii_runtime\<close> of these
  functions stands for the runtime at the example inputs of this theory, where every
  string that the program hands to one of the two methods is an ASCII string. The lemmas
  \<open>search_runtime_cong\<close>, \<open>generate_runtime_cong\<close> and \<open>evaluate_runtime_cong\<close> show
  that the results depend on the runtime through these strings only.
\<close>

definition ascii_lower_char :: "char \<Rightarrow> char" where
  "ascii_lower_char c =
     (let n = (of_char c :: nat) in if 65 \<le> n \<and> n \<le> 90 then char_of (n + 32) else c)"

definition ascii_lower :: "string \<Rightarrow> string" where
  "ascii_lower s = map ascii_lower_char s"

definition ascii_isspace :: "char \<Rightarrow> bool" where
  "ascii_isspace c =
     (let n = (of_char c :: nat) in (9 \<le> n \<and> n \<le> 13) \<or> (28 \<le> n \<and> n \<le> 32))"

definition ascii_strip :: "string \<Rightarrow> string" where
  "ascii_strip s = rev (dropWhile ascii_isspace (rev (dropWhile ascii_isspace s)))"

definition ascii_runtime :: runtime where
  "ascii_runtime = \<lparr>lower = ascii_lower, strip = ascii_strip\<rparr>"

section \<open>The models (models.py)\<close>

record LearnerProfile =
  learner_id :: string
  name :: string
  age :: int
  grade :: int
  language :: string
  strengths :: "string list"
  weaknesses :: "string list"
  learning_style :: string

record LearningContent =
  content_id :: string
  subject :: string
  topic :: string
  difficulty :: string
  content_type :: string
  content :: string
  ncf_alignment :: "string list"
  grade_level :: int

text \<open>
  A field of type \<^verbatim>\<open>float\<close> holds the rational value of the \<^verbatim>\<open>float\<close>; see the section
  on floating-point numbers.
\<close>

record LearningPath =
  learner :: LearnerProfile
  content_sequence :: "LearningContent list"
  progress_pct :: rat

text \<open>
  The fields \<^verbatim>\<open>learner_id\<close> and \<^verbatim>\<open>subject\<close> of \<^verbatim>\<open>AssessmentResult\<close> carry the prefix
  \<open>result_\<close>: the two names are fields of the records above already.
\<close>

record AssessmentResult =
  result_learner_id :: string
  result_subject :: string
  score :: rat
  areas_to_improve :: "string list"

text \<open>
  The \<^verbatim>\<open>Field\<close> constraints. A \<^verbatim>\<open>LearnerProfile\<close> or \<^verbatim>\<open>LearningContent\<close> object exists
  only if its constructor accepted it; the two predicates say what it accepted.
\<close>

definition valid_LearnerProfile :: "LearnerProfile \<Rightarrow> bool" where
  "valid_LearnerProfile p \<longleftrightarrow>
     4 \<le> age p \<and> age p \<le> 25 \<and> 1 \<le> grade p \<and> grade p \<le> 12 \<and>
     learning_style p \<in> set [''visual'', ''auditory'', ''kinesthetic'', ''read-write'']"

definition valid_LearningContent :: "LearningContent \<Rightarrow> bool" where
  "valid_LearningContent c \<longleftrightarrow>
     difficulty c \<in> set [''beginner'', ''intermediate'', ''advanced''] \<and>
     content_type c \<in> set [''text'', ''quiz'', ''activity''] \<and>
     1 \<le> grade_level c \<and> grade_level c \<le> 12"

text \<open>
  The two result models are built by the functions below; a value outside the range of
  a \<^verbatim>\<open>Field\<close> makes the constructor raise \<^verbatim>\<open>ValidationError\<close>.
\<close>

datatype error = ValidationError | ZeroDivisionError

definition new_LearningPath ::
    "LearnerProfile \<Rightarrow> LearningContent list \<Rightarrow> rat \<Rightarrow> error + LearningPath" where
  "new_LearningPath l cs p =
     (if 0 \<le> p \<and> p \<le> 100
      then Inr \<lparr>learner = l, content_sequence = cs, progress_pct = p\<rparr>
      else Inl ValidationError)"

definition new_AssessmentResult ::
    "string \<Rightarrow> string \<Rightarrow> rat \<Rightarrow> string list \<Rightarrow> error + AssessmentResult" where
  "new_AssessmentResult lid subj sc areas =
     (if 0 \<le> sc \<and> sc \<le> 100
      then Inr \<lparr>result_learner_id = lid, result_subject = subj, score = sc,
                areas_to_improve = areas\<rparr>
      else Inl ValidationError)"

section \<open>The content library (core.py)\<close>

definition BUILTIN_CONTENT :: "LearningContent list" where
  "BUILTIN_CONTENT = [
    \<lparr>content_id = ''math-001'',
      subject = ''math'',
      topic = ''Counting and Numbers'',
      difficulty = ''beginner'',
      content_type = ''text'',
      content = ''Numbers from 1 to 100. Learn to count forwards and backwards. Practice skip counting by 2s, 5s, and 10s.'',
      ncf_alignment = [''NCF-MATH-G1-NUM-1''],
      grade_level = 1\<rparr>,
    \<lparr>content_id = ''math-002'',
      subject = ''math'',
      topic = ''Addition and Subtraction'',
      difficulty = ''beginner'',
      content_type = ''activity'',
      content = ''Use counting beads or stones to practise addition and subtraction within 20. Story problems using local contexts.'',
      ncf_alignment = [''NCF-MATH-G2-OPS-1''],
      grade_level = 2\<rparr>,
    \<lparr>content_id = ''math-003'',
      subject = ''math'',
      topic = ''Multiplication Tables'',
      difficulty = ''beginner'',
      content_type = ''text'',
      content = ''Multiplication tables from 1 to 10. Visual array models. Repeated addition concept. Practice with rhymes and patterns.'',
      ncf_alignment = [''NCF-MATH-G3-MUL-1''],
      grade_level = 3\<rparr>,
    \<lparr>content_id = ''math-004'',
      subject = ''math'',
      topic = ''Fractions'',
      difficulty = ''intermediate'',
      content_type = ''text'',
      content = ''Understanding fractions as parts of a whole. Equivalent fractions. Comparing fractions with same and different denominators. Real-life examples: sharing rotis, dividing land.'',
      ncf_alignment = [''NCF-MATH-G5-FRA-1''],
      grade_level = 5\<rparr>,
    \<lparr>content_id = ''math-005'',
      subject = ''math'',
      topic = ''Fractions Quiz'',
      difficulty = ''intermediate'',
      content_type = ''quiz'',
      content = ''[{\"q\":\"What is 1/2 + 1/4?\",\"options\":[\"1/2\",\"3/4\",\"2/6\",\"1/6\"],\"answer\":\"3/4\"},{\"q\":\"Which is bigger: 2/3 or 3/4?\",\"options\":[\"2/3\",\"3/4\",\"Equal\",\"Cannot tell\"],\"answer\":\"3/4\"}]'',
      ncf_alignment = [''NCF-MATH-G5-FRA-2''],
      grade_level = 5\<rparr>,
    \<lparr>content_id = ''math-006'',
      subject = ''math'',
      topic = ''Algebra Introduction'',
      difficulty = ''intermediate'',
      content_type = ''text'',
      content = ''Introduction to variables and simple equations. Solving x + 5 = 12. Writing word problems as equations.'',
      ncf_alignment = [''NCF-MATH-G7-ALG-1''],
      grade_level = 7\<rparr>,
    \<lparr>content_id = ''math-007'',
      subject = ''math'',
      topic = ''Geometry: Triangles'',
      difficulty = ''intermediate'',
      content_type = ''activity'',
      content = ''Properties of triangles. Sum of angles = 180'' @ [CHR 0xC2, CHR 0xB0] @ ''. Types: equilateral, isosceles, scalene. Measure angles with protractor activity.'',
      ncf_alignment = [''NCF-MATH-G7-GEO-1''],
      grade_level = 7\<rparr>,
    \<lparr>content_id = ''math-008'',
      subject = ''math'',
      topic = ''Linear Equations'',
      difficulty = ''advanced'',
      content_type = ''text'',
      content = ''Solving simultaneous linear equations by substitution and elimination. Real-world applications: mixtures, speed-distance-time.'',
      ncf_alignment = [''NCF-MATH-G9-ALG-2''],
      grade_level = 9\<rparr>,
    \<lparr>content_id = ''math-009'',
      subject = ''math'',
      topic = ''Quadratic Equations'',
      difficulty = ''advanced'',
      content_type = ''text'',
      content = ''Solving ax'' @ [CHR 0xC2, CHR 0xB2] @ ''+bx+c=0 by factorisation and quadratic formula. Discriminant. Nature of roots.'',
      ncf_alignment = [''NCF-MATH-G10-ALG-3''],
      grade_level = 10\<rparr>,
    \<lparr>content_id = ''math-010'',
      subject = ''math'',
      topic = ''Statistics: Mean Median Mode'',
      difficulty = ''intermediate'',
      content_type = ''activity'',
      content = ''Calculate mean, median, and mode from real data sets (e.g. rainfall, crop yields). Understand when to use each measure.'',
      ncf_alignment = [''NCF-MATH-G8-STAT-1''],
      grade_level = 8\<rparr>,
    \<lparr>content_id = ''sci-001'',
      subject = ''science'',
      topic = ''Plants and Photosynthesis'',
      difficulty = ''beginner'',
      content_type = ''text'',
      content = ''How plants make food using sunlight, water, and carbon dioxide. Chlorophyll. Leaf structure. Importance of plants in food chain.'',
      ncf_alignment = [''NCF-SCI-G5-BIO-1''],
      grade_level = 5\<rparr>,
    \<lparr>content_id = ''sci-002'',
      subject = ''science'',
      topic = ''Human Body Systems'',
      difficulty = ''intermediate'',
      content_type = ''text'',
      content = ''Digestive, circulatory, and respiratory systems. Functions of major organs. Nutrition and health. Hygiene practices.'',
      ncf_alignment = [''NCF-SCI-G7-BIO-2''],
      grade_level = 7\<rparr>,
    \<lparr>content_id = ''sci-003'',
      subject = ''science'',
      topic = ''Electricity and Circuits'',
      difficulty = ''intermediate'',
      content_type = ''activity'',
      content = ''Build a simple circuit with battery, wire, and bulb. Conductors and insulators. Series vs parallel circuits. Safety with electricity.'',
      ncf_alignment = [''NCF-SCI-G7-PHY-1''],
      grade_level = 7\<rparr>,
    \<lparr>content_id = ''sci-004'',
      subject = ''science'',
      topic = ''Atoms and Molecules'',
      difficulty = ''advanced'',
      content_type = ''text'',
      content = ''Structure of atom: protons, neutrons, electrons. Valency. Chemical formulae. Balancing equations. Periodic table introduction.'',
      ncf_alignment = [''NCF-SCI-G9-CHE-1''],
      grade_level = 9\<rparr>,
    \<lparr>content_id = ''sci-005'',
      subject = ''science'',
      topic = ''Ecosystems'',
      difficulty = ''intermediate'',
      content_type = ''text'',
      content = ''Food chains and food webs. Producers, consumers, decomposers. Biodiversity. Indian ecosystems: forests, wetlands, grasslands.'',
      ncf_alignment = [''NCF-SCI-G8-ENV-1''],
      grade_level = 8\<rparr>,
    \<lparr>content_id = ''sci-006'',
      subject = ''science'',
      topic = ''Heredity and Evolution'',
      difficulty = ''advanced'',
      content_type = ''text'',
      content = ''Mendel'' @ [CHR 0x27] @ ''s laws of inheritance. Dominant and recessive traits. DNA basics. Theory of evolution and natural selection.'',
      ncf_alignment = [''NCF-SCI-G10-BIO-3''],
      grade_level = 10\<rparr>,
    \<lparr>content_id = ''hindi-001'',
      subject = ''hindi'',
      topic = ''Varnamala (Alphabet)'',
      difficulty = ''beginner'',
      content_type = ''text'',
      content = ''Hindi alphabet: 11 swaras (vowels) and 35 vyanjanas (consonants). Devanagari script. Matras. Basic words.'',
      ncf_alignment = [''NCF-HINDI-G1-READ-1''],
      grade_level = 1\<rparr>,
    \<lparr>content_id = ''hindi-002'',
      subject = ''hindi'',
      topic = ''Reading Comprehension'',
      difficulty = ''intermediate'',
      content_type = ''text'',
      content = ''Short stories and poems from Rimjhim textbook. Understanding main idea, characters, and moral. Answer in complete sentences.'',
      ncf_alignment = [''NCF-HINDI-G5-READ-2''],
      grade_level = 5\<rparr>,
    \<lparr>content_id = ''hindi-003'',
      subject = ''hindi'',
      topic = ''Essay Writing'',
      difficulty = ''advanced'',
      content_type = ''activity'',
      content = ''Structure of a Hindi essay: Prastavan, Mukhya Bhag, Upasanhar. Practice topics: Mera Gaon, Paryavaran Pradushan, Swastha Jeevan.'',
      ncf_alignment = [''NCF-HINDI-G8-WRITE-1''],
      grade_level = 8\<rparr>,
    \<lparr>content_id = ''evs-001'',
      subject = ''social_studies'',
      topic = ''Our Neighbourhood'',
      difficulty = ''beginner'',
      content_type = ''activity'',
      content = ''Map your school and home. Identify helpers in the community: farmers, teachers, doctors, postmen. Discuss their roles.'',
      ncf_alignment = [''NCF-EVS-G3-SOC-1''],
      grade_level = 3\<rparr>,
    \<lparr>content_id = ''evs-002'',
      subject = ''social_studies'',
      topic = ''Indian History: Ancient Civilisations'',
      difficulty = ''intermediate'',
      content_type = ''text'',
      content = ''Indus Valley Civilisation: Harappa and Mohenjo-daro. Vedic period. Maurya Empire. Gupta Golden Age. Key contributions to science, mathematics, and art.'',
      ncf_alignment = [''NCF-SS-G6-HIST-1''],
      grade_level = 6\<rparr>,
    \<lparr>content_id = ''evs-003'',
      subject = ''social_studies'',
      topic = ''Indian Constitution and Democracy'',
      difficulty = ''advanced'',
      content_type = ''text'',
      content = ''Fundamental Rights and Duties. Directive Principles. Structure of government: Legislature, Executive, Judiciary. Preamble and its significance.'',
      ncf_alignment = [''NCF-SS-G10-CIV-1''],
      grade_level = 10\<rparr>,
    \<lparr>content_id = ''eng-001'',
      subject = ''english'',
      topic = ''Basic Reading: Phonics'',
      difficulty = ''beginner'',
      content_type = ''activity'',
      content = ''Letter sounds and blends. CVC words (cat, bat, mat). Short stories with illustrations. Oral reading practice.'',
      ncf_alignment = [''NCF-ENG-G1-READ-1''],
      grade_level = 1\<rparr>,
    \<lparr>content_id = ''eng-002'',
      subject = ''english'',
      topic = ''Grammar: Tenses'',
      difficulty = ''intermediate'',
      content_type = ''text'',
      content = ''Simple present, past, and future tenses. Present and past continuous. Perfect tenses introduction. Common errors in Indian English.'',
      ncf_alignment = [''NCF-ENG-G6-GRAM-1''],
      grade_level = 6\<rparr>,
    \<lparr>content_id = ''eng-003'',
      subject = ''english'',
      topic = ''Letter Writing'',
      difficulty = ''intermediate'',
      content_type = ''activity'',
      content = ''Formal and informal letter formats. Application for leave. Complaint letter. Invitation letter. Practice exercises with real contexts.'',
      ncf_alignment = [''NCF-ENG-G8-WRITE-1''],
      grade_level = 8\<rparr>
  ]"

record ContentLibrary =
  contents :: "LearningContent list"

definition new_ContentLibrary :: ContentLibrary where
  "new_ContentLibrary = \<lparr>contents = BUILTIN_CONTENT\<rparr>"

definition add :: "ContentLibrary \<Rightarrow> LearningContent \<Rightarrow> ContentLibrary" where
  "add self c = self\<lparr>contents := contents self @ [c]\<rparr>"

text \<open>
  \<^verbatim>\<open>search\<close>: the optional arguments are \<open>None\<close> when absent. The difficulty filter is
  guarded by \<^verbatim>\<open>if difficulty:\<close>, the truth value of the argument, so that the empty
  string skips it as \<open>None\<close> does; the grade filter is guarded by \<^verbatim>\<open>is not None\<close>.
  \<^verbatim>\<open>sorted\<close> is stable, as \<^const>\<open>sort_key\<close> is; the key is a pair, compared
  lexicographically, of the grade level and the difficulty label.
\<close>

definition search ::
    "runtime \<Rightarrow> ContentLibrary \<Rightarrow> string \<Rightarrow> string option \<Rightarrow> int option \<Rightarrow>
       LearningContent list" where
  "search R self subj difficulty_arg grade_arg =
     (let results = filter (\<lambda>c. lower R (subject c) = lower R subj) (contents self);
          results = (case difficulty_arg of
                       None \<Rightarrow> results
                     | Some d \<Rightarrow> if d \<noteq> [] then filter (\<lambda>c. difficulty c = d) results
                                else results);
          results = (case grade_arg of
                       None \<Rightarrow> results
                     | Some g \<Rightarrow> filter (\<lambda>c. grade_level c = g) results)
      in sort_key (\<lambda>c. (grade_level c, difficulty c)) results)"

definition all_content :: "ContentLibrary \<Rightarrow> LearningContent list" where
  "all_content self = contents self"

section \<open>The path generator (core.py)\<close>

definition dict_get :: "('k \<rightharpoonup> 'v) \<Rightarrow> 'k \<Rightarrow> 'v \<Rightarrow> 'v" where
  "dict_get d k dflt = (case d k of None \<Rightarrow> dflt | Some v \<Rightarrow> v)"

definition DIFFICULTY_ORDER :: "string \<rightharpoonup> int" where
  "DIFFICULTY_ORDER = [''beginner'' \<mapsto> 0, ''intermediate'' \<mapsto> 1, ''advanced'' \<mapsto> 2]"

text \<open>\<^verbatim>\<open>range(a, b)\<close> is kept as its two bounds; \<^verbatim>\<open>x in range(a, b)\<close> is \<open>a \<le> x < b\<close>.\<close>

definition grade_range :: "int \<Rightarrow> int \<times> int" where
  "grade_range g = (max 1 (g - 1), min 12 (g + 2))"

definition in_range :: "int \<Rightarrow> int \<times> int \<Rightarrow> bool" where
  "in_range x r \<longleftrightarrow> fst r \<le> x \<and> x < snd r"

definition grade_filter :: "LearnerProfile \<Rightarrow> LearningContent list \<Rightarrow> LearningContent list" where
  "grade_filter l cs = filter (\<lambda>c. in_range (grade_level c) (grade_range (grade l))) cs"

definition is_weak :: "runtime \<Rightarrow> LearnerProfile \<Rightarrow> string \<Rightarrow> bool" where
  "is_weak R l subj \<longleftrightarrow> lower R subj \<in> set (map (lower R) (weaknesses l))"

definition starting_difficulty :: "runtime \<Rightarrow> LearnerProfile \<Rightarrow> string \<Rightarrow> string" where
  "starting_difficulty R l subj = (if is_weak R l subj then ''beginner'' else ''intermediate'')"

text \<open>
  The local function \<^verbatim>\<open>sort_key\<close>, with the starting difficulty it closes over as an
  argument; the name \<open>sort_key\<close> is the library's sorting function, which models
  \<^verbatim>\<open>list.sort\<close> (both are stable).
\<close>

definition path_sort_key :: "string \<Rightarrow> LearningContent \<Rightarrow> int \<times> int" where
  "path_sort_key start c =
     (let diff_val = dict_get DIFFICULTY_ORDER (difficulty c) 1;
          target = dict_get DIFFICULTY_ORDER start 1
      in (\<bar>diff_val - target\<bar>, grade_level c))"

definition style_pref :: "string \<rightharpoonup> string" where
  "style_pref = [''visual'' \<mapsto> ''activity'', ''auditory'' \<mapsto> ''text'',
                 ''kinesthetic'' \<mapsto> ''activity'', ''read-write'' \<mapsto> ''text'']"

definition preferred_type :: "LearnerProfile \<Rightarrow> string" where
  "preferred_type l = dict_get style_pref (learning_style l) ''text''"

text \<open>The loop that drops an item whose identifier was seen, with its two variables.\<close>

fun dedup :: "LearningContent list \<Rightarrow> string set \<Rightarrow> LearningContent list \<Rightarrow> LearningContent list" where
  "dedup [] seen_ids sequence = sequence"
| "dedup (item # rest) seen_ids sequence =
     (if content_id item \<notin> seen_ids
      then dedup rest (insert (content_id item) seen_ids) (sequence @ [item])
      else dedup rest seen_ids sequence)"

text \<open>
  The stages of \<^verbatim>\<open>generate\<close>: the subject's items kept by the grade filter
  (\<open>grade_filtered\<close>), the list after the fallback (\<open>candidates\<close>), the list after the
  sort (\<open>ordered\<close>), and the preferred items followed by the others (\<open>partitioned\<close>).
  The code holds the first three, one after the other, in its variable
  \<^verbatim>\<open>grade_filtered\<close>, and builds the last as \<^verbatim>\<open>preferred + others\<close>.
\<close>

definition grade_filtered ::
    "runtime \<Rightarrow> ContentLibrary \<Rightarrow> LearnerProfile \<Rightarrow> string \<Rightarrow> LearningContent list" where
  "grade_filtered R lib l subj = grade_filter l (search R lib subj None None)"

definition candidates ::
    "runtime \<Rightarrow> ContentLibrary \<Rightarrow> LearnerProfile \<Rightarrow> string \<Rightarrow> LearningContent list" where
  "candidates R lib l subj =
     (if grade_filtered R lib l subj = [] then search R lib subj None None
      else grade_filtered R lib l subj)"

definition ordered ::
    "runtime \<Rightarrow> ContentLibrary \<Rightarrow> LearnerProfile \<Rightarrow> string \<Rightarrow> LearningContent list" where
  "ordered R lib l subj =
     sort_key (path_sort_key (starting_difficulty R l subj)) (candidates R lib l subj)"

definition partitioned ::
    "runtime \<Rightarrow> ContentLibrary \<Rightarrow> LearnerProfile \<Rightarrow> string \<Rightarrow> LearningContent list" where
  "partitioned R lib l subj =
     (let preferred = filter (\<lambda>c. content_type c = preferred_type l) (ordered R lib l subj);
          others = filter (\<lambda>c. content_type c \<noteq> preferred_type l) (ordered R lib l subj)
      in preferred @ others)"

definition generate ::
    "runtime \<Rightarrow> ContentLibrary \<Rightarrow> LearnerProfile \<Rightarrow> string \<Rightarrow> error + LearningPath" where
  "generate R lib l subj = new_LearningPath l (dedup (partitioned R lib l subj) {} []) 0"

section \<open>Floating-point numbers\<close>

text \<open>
  A Python \<^verbatim>\<open>float\<close> is an IEEE 754 binary64 number; a finite one is a rational, and
  is modelled by that rational. Every operation of binary64 returns the exact result
  rounded to the nearest number with a 53-bit significand, a tie going to the even
  significand: \<open>to_float\<close>. The exponent range is not modelled (no overflow, no
  subnormal numbers): the model is exact for results of magnitude from \<open>2 powi -1022\<close>
  up to \<open>2 powi 1024\<close>, which holds for every quotient of a count by the length of a
  list that a machine can hold, and for that quotient times 100.
\<close>

definition round_half_even :: "rat \<Rightarrow> int" where
  "round_half_even x =
     (let f = \<lfloor>x\<rfloor>; r = x - of_int f
      in if r < 1 / 2 then f else if 1 / 2 < r then f + 1 else if even f then f else f + 1)"

text \<open>The number of binary digits of a positive integer, \<^verbatim>\<open>int.bit_length\<close>.\<close>

function bit_length :: "int \<Rightarrow> nat" where
  "bit_length a = (if a \<le> 0 then 0 else Suc (bit_length (a div 2)))"
  by pat_completeness auto
termination
  by (relation "measure nat") auto

declare bit_length.simps [simp del]

text \<open>The binary exponent \<open>e\<close> of a non-zero number: \<open>2 powi e \<le> \<bar>x\<bar> < 2 powi (e + 1)\<close>.\<close>

definition binade :: "rat \<Rightarrow> int" where
  "binade x =
     (let (a, b) = quotient_of \<bar>x\<bar>;
          k = int (bit_length a) - int (bit_length b)
      in if 2 powi k \<le> \<bar>x\<bar> then k else k - 1)"

definition to_float :: "rat \<Rightarrow> rat" where
  "to_float x =
     (if x = 0 then 0
      else let u = 2 powi (binade x - 52) in of_int (round_half_even (x / u)) * u)"

text \<open>\<^verbatim>\<open>a / b\<close> on two \<^verbatim>\<open>int\<close>s: the correctly rounded quotient, or \<^verbatim>\<open>ZeroDivisionError\<close>.\<close>

definition truediv :: "int \<Rightarrow> int \<Rightarrow> error + rat" where
  "truediv a b = (if b = 0 then Inl ZeroDivisionError else Inr (to_float (of_int a / of_int b)))"

definition float_mul :: "rat \<Rightarrow> rat \<Rightarrow> rat" where
  "float_mul x y = to_float (x * y)"

text \<open>
  \<^verbatim>\<open>round(x, ndigits)\<close> on a \<^verbatim>\<open>float\<close>, for \<open>ndigits \<ge> 0\<close>: the exact value of \<open>x\<close> is
  rounded to \<open>ndigits\<close> decimal places, a tie going to the even digit, and the decimal is
  read back as the nearest \<^verbatim>\<open>float\<close>.
\<close>

definition py_round :: "rat \<Rightarrow> nat \<Rightarrow> rat" where
  "py_round x ndigits =
     to_float (of_int (round_half_even (x * 10 ^ ndigits)) / 10 ^ ndigits)"

section \<open>The assessment engine (core.py)\<close>

text \<open>
  The values an answer record holds under its keys: \<^verbatim>\<open>None\<close>, booleans, integers and
  strings, as JSON gives them (floats, lists and dictionaries are left out). An answer is
  a dictionary from keys to such values.
\<close>

datatype pyobj = PyNone | PyBool bool | PyInt int | PyStr string

type_synonym answer = "string \<rightharpoonup> pyobj"

text \<open>\<^verbatim>\<open>bool(v)\<close>.\<close>

fun py_bool :: "pyobj \<Rightarrow> bool" where
  "py_bool PyNone = False"
| "py_bool (PyBool b) = b"
| "py_bool (PyInt i) = (i \<noteq> 0)"
| "py_bool (PyStr s) = (s \<noteq> [])"

text \<open>\<^verbatim>\<open>str(v)\<close>.\<close>

fun str_nat :: "nat \<Rightarrow> string" where
  "str_nat n =
     (if n < 10 then [char_of (48 + n)] else str_nat (n div 10) @ [char_of (48 + n mod 10)])"

declare str_nat.simps [simp del]

fun py_str :: "pyobj \<Rightarrow> string" where
  "py_str PyNone = ''None''"
| "py_str (PyBool b) = (if b then ''True'' else ''False'')"
| "py_str (PyInt i) = (if i < 0 then ''-'' @ str_nat (nat (- i)) else str_nat (nat i))"
| "py_str (PyStr s) = s"

fun is_correct :: "runtime \<Rightarrow> pyobj \<Rightarrow> bool" where
  "is_correct R (PyStr s) = (lower R (strip R s) \<notin> set [''false'', ''0'', ''no'', []])"
| "is_correct R v = py_bool v"

definition judged_correct :: "runtime \<Rightarrow> answer \<Rightarrow> bool" where
  "judged_correct R a = is_correct R (dict_get a ''correct'' (PyBool False))"

definition correct_count :: "runtime \<Rightarrow> answer list \<Rightarrow> int" where
  "correct_count R answers = sum_list (map (\<lambda>a. 1) (filter (judged_correct R) answers))"

text \<open>
  The score from the two counts: \<^verbatim>\<open>round(correct_count / len(answers) * 100, 1)\<close>, the
  quotient first, then the product with 100, then the rounding to one decimal.
\<close>

definition percentage :: "int \<Rightarrow> int \<Rightarrow> error + rat" where
  "percentage c n =
     (case truediv c n of
        Inl e \<Rightarrow> Inl e
      | Inr q \<Rightarrow> Inr (py_round (float_mul q 100) 1))"

text \<open>The topic of an answer, \<^verbatim>\<open>str(answer.get("topic", subject))\<close>.\<close>

definition topic_of :: "string \<Rightarrow> answer \<Rightarrow> string" where
  "topic_of subj a = py_str (dict_get a ''topic'' (PyStr subj))"

text \<open>The loop over the answers that collects \<^verbatim>\<open>incorrect_topics\<close>.\<close>

fun collect_incorrect ::
    "runtime \<Rightarrow> string \<Rightarrow> answer list \<Rightarrow> string list \<Rightarrow> string list" where
  "collect_incorrect R subj [] incorrect_topics = incorrect_topics"
| "collect_incorrect R subj (a # rest) incorrect_topics =
     (if \<not> judged_correct R a
      then let t = topic_of subj a
           in if t \<notin> set incorrect_topics
              then collect_incorrect R subj rest (incorrect_topics @ [t])
              else collect_incorrect R subj rest incorrect_topics
      else collect_incorrect R subj rest incorrect_topics)"

text \<open>The two fixed messages; the dash is U+2014, three bytes in UTF-8.\<close>

definition NO_ANSWERS :: string where
  "NO_ANSWERS =
     ''No answers provided '' @ [CHR 0xE2, CHR 0x80, CHR 0x94] @ '' please attempt the assessment.''"

definition EXCELLENT :: string where
  "EXCELLENT =
     ''Continue to advanced topics '' @ [CHR 0xE2, CHR 0x80, CHR 0x94] @ '' excellent performance!''"

definition evaluate ::
    "runtime \<Rightarrow> string \<Rightarrow> string \<Rightarrow> answer list \<Rightarrow> error + AssessmentResult" where
  "evaluate R lid subj answers =
     (if answers = [] then new_AssessmentResult lid subj 0 [NO_ANSWERS]
      else
        case percentage (correct_count R answers) (int (length answers)) of
          Inl e \<Rightarrow> Inl e
        | Inr sc \<Rightarrow>
            let incorrect_topics = collect_incorrect R subj answers [];
                areas = (if incorrect_topics \<noteq> [] then incorrect_topics else []);
                areas = (if sc < 40 then areas @ [''Fundamental concepts in '' @ subj] else areas);
                areas = (if areas = [] then [EXCELLENT] else areas)
            in new_AssessmentResult lid subj sc areas)"

section \<open>The specification's words\<close>

text \<open>
  The definitions of this section follow the specification, not the code; the theorems
  below compare the two. Where the specification speaks of lower-casing and of trimming
  whitespace, the definitions take the runtime's two methods, as the program does.
\<close>

text \<open>
  What \<^verbatim>\<open>search\<close> keeps: the subject matches without regard to case, that is, the stored
  subject and the query are equal once both are in lower case; a difficulty that is
  given and not empty matches exactly; a grade that is given matches exactly.
\<close>

definition spec_search_matches ::
    "runtime \<Rightarrow> string \<Rightarrow> string option \<Rightarrow> int option \<Rightarrow> LearningContent \<Rightarrow> bool" where
  "spec_search_matches R subj d g c \<longleftrightarrow>
     lower R (subject c) = lower R subj \<and>
     (case d of None \<Rightarrow> True | Some x \<Rightarrow> x = [] \<or> difficulty c = x) \<and>
     (case g of None \<Rightarrow> True | Some y \<Rightarrow> grade_level c = y)"

text \<open>The difficulty rank: beginner 0, intermediate 1, advanced 2, anything else 1.\<close>

definition spec_rank :: "string \<Rightarrow> int" where
  "spec_rank d =
     (if d = ''beginner'' then 0 else if d = ''intermediate'' then 1
      else if d = ''advanced'' then 2 else 1)"

text \<open>
  The target difficulty: beginner if the subject is, without regard to case, among the
  learner's weaknesses, and intermediate otherwise.
\<close>

definition spec_target :: "runtime \<Rightarrow> LearnerProfile \<Rightarrow> string \<Rightarrow> string" where
  "spec_target R l subj =
     (if \<exists>w \<in> set (weaknesses l). lower R w = lower R subj then ''beginner''
      else ''intermediate'')"

definition spec_distance :: "runtime \<Rightarrow> LearnerProfile \<Rightarrow> string \<Rightarrow> LearningContent \<Rightarrow> int" where
  "spec_distance R l subj c =
     \<bar>spec_rank (difficulty c) - spec_rank (spec_target R l subj)\<bar>"

text \<open>The content type a learning style prefers.\<close>

definition spec_preferred :: "LearnerProfile \<Rightarrow> string" where
  "spec_preferred l =
     (if learning_style l = ''visual'' then ''activity''
      else if learning_style l = ''auditory'' then ''text''
      else if learning_style l = ''kinesthetic'' then ''activity''
      else if learning_style l = ''read-write'' then ''text''
      else ''text'')"

text \<open>
  The items that are sorted: of the subject's items, those that the grade filter keeps,
  or all of them when it keeps none. The grade filter is the program's; how its window
  relates to the specification's is the matter of C1 alone.
\<close>

definition spec_sort_input :: "LearnerProfile \<Rightarrow> LearningContent list \<Rightarrow> LearningContent list" where
  "spec_sort_input l found = (if grade_filter l found = [] then found else grade_filter l found)"

text \<open>
  A list of items without the items whose identifier an earlier item has: each
  identifier by its first occurrence, in the order of the list.
\<close>

fun first_by_id :: "LearningContent list \<Rightarrow> LearningContent list" where
  "first_by_id [] = []"
| "first_by_id (x # xs) = x # filter (\<lambda>y. content_id y \<noteq> content_id x) (first_by_id xs)"

text \<open>The distinct elements of a list, in the order of their first occurrences.\<close>

definition first_occurrences :: "'a list \<Rightarrow> 'a list" where
  "first_occurrences xs = rev (remdups (rev xs))"

text \<open>
  The judgement of a correctness value. A string is treated as correct unless, after
  trimming whitespace and lower-casing, it equals one of \<open>false\<close>, \<open>0\<close>, \<open>no\<close> or the
  empty string. A value that is not a string counts by its truth value: \<^verbatim>\<open>None\<close> is
  false, a boolean is itself, an integer is true unless it is 0.
\<close>

definition spec_judged_correct :: "runtime \<Rightarrow> pyobj \<Rightarrow> bool" where
  "spec_judged_correct R v =
     (case v of
        PyStr s \<Rightarrow>
          (let t = lower R (strip R s)
           in \<not> (t = ''false'' \<or> t = ''0'' \<or> t = ''no'' \<or> t = []))
      | PyNone \<Rightarrow> False
      | PyBool b \<Rightarrow> b
      | PyInt i \<Rightarrow> i \<noteq> 0)"

text \<open>An answer record counts as correct if it has a correctness value judged correct.\<close>

definition spec_answer_correct :: "runtime \<Rightarrow> answer \<Rightarrow> bool" where
  "spec_answer_correct R a =
     (case a ''correct'' of None \<Rightarrow> False | Some v \<Rightarrow> spec_judged_correct R v)"

text \<open>
  The score as the specification writes it, \<^verbatim>\<open>round(100 * correctCount / totalCount, 1)\<close>:
  the product first, then the quotient.
\<close>

definition spec_score :: "int \<Rightarrow> int \<Rightarrow> rat" where
  "spec_score c n = py_round (to_float (of_int (100 * c) / of_int n)) 1"

section \<open>Example inputs\<close>

definition grade12_learner :: LearnerProfile where
  "grade12_learner =
     \<lparr>learner_id = ''L-g12'', name = ''Grade 12 Learner'', age = 17, grade = 12,
      language = ''en'', strengths = [], weaknesses = [], learning_style = ''visual''\<rparr>"

definition math_011 :: LearningContent where
  "math_011 =
     \<lparr>content_id = ''math-011'', subject = ''math'', topic = ''Trigonometry'',
      difficulty = ''advanced'', content_type = ''text'',
      content = ''Sine, cosine and tangent.'', ncf_alignment = [], grade_level = 11\<rparr>"

definition math_012 :: LearningContent where
  "math_012 =
     \<lparr>content_id = ''math-012'', subject = ''math'', topic = ''Calculus'',
      difficulty = ''advanced'', content_type = ''text'',
      content = ''Limits and derivatives.'', ncf_alignment = [], grade_level = 12\<rparr>"

definition senior_library :: ContentLibrary where
  "senior_library = add (add new_ContentLibrary math_011) math_012"

text \<open>The learner of the tests' fixture, and an item that reuses an identifier.\<close>

definition grade5_visual_learner :: LearnerProfile where
  "grade5_visual_learner =
     \<lparr>learner_id = ''learner-001'', name = ''Priya Sharma'', age = 10, grade = 5,
      language = ''en'', strengths = [''science''], weaknesses = [''math''],
      learning_style = ''visual''\<rparr>"

definition fractions_game :: LearningContent where
  "fractions_game =
     \<lparr>content_id = ''math-004'', subject = ''Math'', topic = ''Fractions Game'',
      difficulty = ''intermediate'', content_type = ''activity'',
      content = ''Fold paper strips into halves and quarters.'', ncf_alignment = [],
      grade_level = 6\<rparr>"

definition game_library :: ContentLibrary where
  "game_library = add new_ContentLibrary fractions_game"

text \<open>Answer records: right and wrong ones, with and without their keys.\<close>

definition right_answer :: answer where
  "right_answer = [''question_id'' \<mapsto> PyStr ''q1'', ''correct'' \<mapsto> PyBool True,
                   ''topic'' \<mapsto> PyStr ''Algebra'']"

definition wrong_answer :: answer where
  "wrong_answer = [''question_id'' \<mapsto> PyStr ''q2'', ''correct'' \<mapsto> PyBool False,
                   ''topic'' \<mapsto> PyStr ''Fractions'']"

definition wrong_text_answer :: answer where
  "wrong_text_answer = [''question_id'' \<mapsto> PyStr ''q3'', ''correct'' \<mapsto> PyStr '' False '',
                        ''topic'' \<mapsto> PyStr ''fractions'']"

definition bare_answer :: answer where
  "bare_answer = [''question_id'' \<mapsto> PyStr ''q4'']"

definition four_answers :: "answer list" where
  "four_answers = [right_answer, wrong_answer, wrong_text_answer, wrong_answer]"

definition three_answers :: "answer list" where
  "three_answers = [right_answer, wrong_answer, wrong_answer]"

definition eighty_answers :: "answer list" where
  "eighty_answers = replicate 23 right_answer @ replicate 57 wrong_answer"

text \<open>
  Ten answers, one for each correctness value that the specification lists, each with a
  topic of its own.
\<close>

definition flagged :: "pyobj \<Rightarrow> string \<Rightarrow> answer" where
  "flagged v t = [''correct'' \<mapsto> v, ''topic'' \<mapsto> PyStr t]"

definition ten_answers :: "answer list" where
  "ten_answers =
     [flagged (PyBool True) ''t01'', flagged (PyStr ''true'') ''t02'',
      flagged (PyStr ''1'') ''t03'', flagged (PyStr ''yes'') ''t04'',
      flagged (PyInt 1) ''t05'', flagged (PyBool False) ''t06'',
      flagged (PyStr ''false'') ''t07'', flagged (PyStr ''0'') ''t08'',
      flagged (PyStr ''no'') ''t09'', flagged (PyStr []) ''t10'']"

section \<open>Properties of the content library\<close>

text \<open>The built-in table passes the checks of the model's fields.\<close>

lemma builtin_valid: "list_all valid_LearningContent (contents new_ContentLibrary)"
  by code_simp

lemma search_eq:
  "search R lib subj d g =
     sort_key (\<lambda>c. (grade_level c, difficulty c))
       (filter (spec_search_matches R subj d g) (contents lib))"
  by (cases d; cases g)
     (auto simp: search_def spec_search_matches_def Let_def conj_commute
           intro!: arg_cong[where f="sort_key _"] filter_cong)

lemma set_search_subject:
  "set (search R lib subj None None) = {c \<in> set (contents lib). lower R (subject c) = lower R subj}"
  by (simp add: search_eq spec_search_matches_def)

text \<open>
  The search depends on the runtime through the lower-case forms of the query and of the
  stored subjects only: two runtimes that agree on them give the same result.
\<close>

lemma search_runtime_cong:
  assumes "lower R' subj = lower R subj"
    and "\<forall>c \<in> set (contents lib). lower R' (subject c) = lower R (subject c)"
  shows "search R' lib subj d g = search R lib subj d g"
proof -
  from assms have "filter (spec_search_matches R' subj d g) (contents lib) =
                   filter (spec_search_matches R subj d g) (contents lib)"
    by (intro filter_cong) (simp_all add: spec_search_matches_def)
  then show ?thesis by (simp only: search_eq)
qed

text \<open>A list sorted by a pair of keys: the first key decides, the second breaks ties.\<close>

lemma sorted_pairs:
  "sorted (map (\<lambda>c. (f c, h c)) xs) \<longleftrightarrow>
   sorted_wrt (\<lambda>a b. f a < f b \<or> (f a = f b \<and> h a \<le> h b)) xs"
proof -
  have "(\<lambda>x y. f x < f y \<or> f x \<le> f y \<and> h x \<le> h y) =
        (\<lambda>a b. f a < f b \<or> (f a = f b \<and> h a \<le> h b))"
    by (intro ext) auto
  then show ?thesis by (simp add: sorted_map less_eq_prod_def)
qed

text \<open>
  C3, as amended. For every subject string, ASCII or not, \<^verbatim>\<open>search\<close> returns exactly
  the stored items whose subject matches without regard to case (the stored subject and
  the query are equal once both are in lower case, by the runtime's \<^verbatim>\<open>lower\<close>, whatever
  it is), restricted to the exact difficulty when a non-empty difficulty
  is given (an empty one is treated as absent) and to the exact grade level when a grade
  is given: the same items with the same multiplicities. They are sorted by grade level,
  ties broken by the order of the difficulty labels as strings, under which
  \<open>advanced < beginner < intermediate\<close>; items equal in both keep their stored order. A
  subject that matches no item yields the empty list.
\<close>

theorem search_sorted_matches:
  "mset (search R lib subj d g) = mset (filter (spec_search_matches R subj d g) (contents lib)) \<and>
   sorted_wrt (\<lambda>a b. grade_level a < grade_level b \<or>
                 (grade_level a = grade_level b \<and> difficulty a \<le> difficulty b))
      (search R lib subj d g) \<and>
   (\<forall>k. filter (\<lambda>c. (grade_level c, difficulty c) = k) (search R lib subj d g) =
        filter (\<lambda>c. (grade_level c, difficulty c) = k)
          (filter (spec_search_matches R subj d g) (contents lib))) \<and>
   (''advanced''::string) < ''beginner'' \<and> (''beginner''::string) < ''intermediate'' \<and>
   ((\<forall>c \<in> set (contents lib). lower R (subject c) \<noteq> lower R subj) \<longrightarrow> search R lib subj d g = [])"
proof -
  let ?key = "\<lambda>c. (grade_level c, difficulty c)"
  let ?xs = "filter (spec_search_matches R subj d g) (contents lib)"
  have s: "search R lib subj d g = sort_key ?key ?xs" by (rule search_eq)
  have 1: "mset (search R lib subj d g) = mset ?xs" by (simp add: s)
  have "sorted (map ?key (search R lib subj d g))" by (simp add: s)
  then have 2: "sorted_wrt (\<lambda>a b. grade_level a < grade_level b \<or>
                 (grade_level a = grade_level b \<and> difficulty a \<le> difficulty b))
      (search R lib subj d g)" by (simp only: sorted_pairs)
  have 3: "\<forall>k. filter (\<lambda>c. ?key c = k) (search R lib subj d g) = filter (\<lambda>c. ?key c = k) ?xs"
    by (simp only: s sort_key_stable) simp
  have 4: "(''advanced''::string) < ''beginner'' \<and> (''beginner''::string) < ''intermediate''"
    by simp
  have 5: "(\<forall>c \<in> set (contents lib). lower R (subject c) \<noteq> lower R subj) \<longrightarrow> search R lib subj d g = []"
  proof
    assume "\<forall>c \<in> set (contents lib). lower R (subject c) \<noteq> lower R subj"
    then have "?xs = []" by (auto simp: spec_search_matches_def filter_empty_conv)
    then show "search R lib subj d g = []" by (simp add: s)
  qed
  from 1 2 3 4 5 show ?thesis by blast
qed

text \<open>No built-in item has the subject of the tests' unknown subject, so the search is empty.\<close>

theorem search_sorted_matches_witness:
  "list_all (\<lambda>c. lower ascii_runtime (subject c) \<noteq> lower ascii_runtime ''nonexistent_subject_xyz'')
     (contents new_ContentLibrary) \<and>
   search ascii_runtime new_ContentLibrary ''nonexistent_subject_xyz'' None None = []"
proof -
  have h: "list_all (\<lambda>c. lower ascii_runtime (subject c) \<noteq> lower ascii_runtime ''nonexistent_subject_xyz'')
     (contents new_ContentLibrary)"
    by code_simp
  then have "\<forall>c \<in> set (contents new_ContentLibrary).
      lower ascii_runtime (subject c) \<noteq> lower ascii_runtime ''nonexistent_subject_xyz''"
    by (simp add: list_all_iff)
  with search_sorted_matches[of ascii_runtime new_ContentLibrary "''nonexistent_subject_xyz''" None None]
  have "search ascii_runtime new_ContentLibrary ''nonexistent_subject_xyz'' None None = []" by blast
  with h show ?thesis by simp
qed

text \<open>
  C3 as stated fails for the difficulty \<open>''''\<close>: it is given, and the search returns
  every item of the subject, none of which has that difficulty.
\<close>

theorem search_empty_difficulty_counterexample:
  "map content_id (search ascii_runtime new_ContentLibrary ''math'' (Some '''') None) =
     [''math-001'', ''math-002'', ''math-003'', ''math-004'', ''math-005'', ''math-006'',
      ''math-007'', ''math-010'', ''math-008'', ''math-009''] \<and>
   map difficulty (search ascii_runtime new_ContentLibrary ''math'' (Some '''') None) =
     [''beginner'', ''beginner'', ''beginner'', ''intermediate'', ''intermediate'',
      ''intermediate'', ''intermediate'', ''intermediate'', ''advanced'', ''advanced'']"
  by code_simp

section \<open>Properties of the path generator\<close>

subsection \<open>The loop that drops repeated identifiers\<close>

lemma dedup_acc: "dedup xs seen acc = acc @ dedup xs seen []"
proof (induction xs arbitrary: seen acc)
  case Nil
  show ?case by simp
next
  case (Cons x xs)
  show ?case
    using Cons.IH[of "insert (content_id x) seen" "acc @ [x]"]
          Cons.IH[of "insert (content_id x) seen" "[x]"]
          Cons.IH[of seen acc]
    by simp
qed

lemma dedup_Cons:
  "dedup (x # xs) seen [] =
     (if content_id x \<notin> seen then x # dedup xs (insert (content_id x) seen) []
      else dedup xs seen [])"
  using dedup_acc[of xs "insert (content_id x) seen" "[x]"] by simp

lemma ids_dedup: "content_id ` set (dedup xs seen []) = content_id ` set xs - seen"
proof (induction xs arbitrary: seen)
  case Nil
  show ?case by simp
next
  case (Cons x xs)
  show ?case by (simp only: dedup_Cons) (auto simp: Cons.IH)
qed

lemma set_dedup: "set (dedup xs seen []) \<subseteq> set xs"
proof (induction xs arbitrary: seen)
  case Nil
  show ?case by simp
next
  case (Cons x xs)
  show ?case using Cons.IH[of seen] Cons.IH[of "insert (content_id x) seen"]
    by (simp only: dedup_Cons) auto
qed

lemma subseq_dedup: "subseq (dedup xs seen []) xs"
proof (induction xs arbitrary: seen)
  case Nil
  show ?case by simp
next
  case (Cons x xs)
  show ?case using Cons.IH[of seen] Cons.IH[of "insert (content_id x) seen"]
    by (simp only: dedup_Cons) auto
qed

lemma distinct_dedup: "distinct (map content_id (dedup xs seen []))"
proof (induction xs arbitrary: seen)
  case Nil
  show ?case by simp
next
  case (Cons x xs)
  have "content_id x \<notin> content_id ` set (dedup xs (insert (content_id x) seen) [])"
    by (simp add: ids_dedup)
  then show ?case using Cons.IH[of seen] Cons.IH[of "insert (content_id x) seen"]
    by (simp only: dedup_Cons) auto
qed

text \<open>An item that survives is the first one of the list with its identifier.\<close>

lemma first_dedup:
  "c \<in> set (dedup xs seen []) \<Longrightarrow> find (\<lambda>d. content_id d = content_id c) xs = Some c"
proof (induction xs arbitrary: seen)
  case Nil
  then show ?case by simp
next
  case (Cons x xs)
  show ?case
  proof (cases "content_id x \<in> seen")
    case True
    with Cons.prems have m: "c \<in> set (dedup xs seen [])"
      by (simp add: dedup_Cons del: dedup.simps)
    then have "content_id c \<in> content_id ` set xs - seen" by (simp flip: ids_dedup)
    with True have "content_id x \<noteq> content_id c" by auto
    with Cons.IH[OF m] show ?thesis by simp
  next
    case False
    with Cons.prems have "c = x \<or> c \<in> set (dedup xs (insert (content_id x) seen) [])"
      by (simp add: dedup_Cons del: dedup.simps)
    then show ?thesis
    proof
      assume "c = x"
      then show ?thesis by simp
    next
      assume m: "c \<in> set (dedup xs (insert (content_id x) seen) [])"
      then have "content_id c \<in> content_id ` set xs - insert (content_id x) seen"
        by (simp flip: ids_dedup)
      then have "content_id x \<noteq> content_id c" by auto
      with Cons.IH[OF m] show ?thesis by simp
    qed
  qed
qed

subsection \<open>The stages\<close>

text \<open>\<^verbatim>\<open>generate\<close> never raises: the progress it passes to the constructor is 0.\<close>

lemma generate_eq:
  "generate R lib l subj =
     Inr \<lparr>learner = l, content_sequence = dedup (partitioned R lib l subj) {} [],
          progress_pct = 0\<rparr>"
  by (simp add: generate_def new_LearningPath_def)

text \<open>
  The path depends on the runtime through the lower-case forms of the subject, of the
  stored subjects and of the learner's weaknesses only.
\<close>

lemma generate_runtime_cong:
  assumes "lower R' subj = lower R subj"
    and "\<forall>c \<in> set (contents lib). lower R' (subject c) = lower R (subject c)"
    and "\<forall>w \<in> set (weaknesses l). lower R' w = lower R w"
  shows "generate R' lib l subj = generate R lib l subj"
proof -
  from assms(1,2) have s: "search R' lib subj None None = search R lib subj None None"
    by (rule search_runtime_cong)
  from assms(3) have "map (lower R') (weaknesses l) = map (lower R) (weaknesses l)"
    by simp
  with assms(1) have w: "is_weak R' l subj = is_weak R l subj"
    by (simp only: is_weak_def)
  show ?thesis
    by (simp only: generate_def partitioned_def ordered_def candidates_def
          grade_filtered_def starting_difficulty_def s w)
qed

lemma set_partitioned: "set (partitioned R lib l subj) = set (candidates R lib l subj)"
  by (auto simp: partitioned_def ordered_def Let_def)

lemma set_candidates: "set (candidates R lib l subj) \<subseteq> set (contents lib)"
  by (auto simp: candidates_def grade_filtered_def grade_filter_def set_search_subject)

text \<open>
  What the grade filter keeps: the grade levels from \<open>max 1 (g - 1)\<close> up to, but not
  including, \<open>min 12 (g + 2)\<close>. For a learner in grade 10 or below that is the window of
  the specification; for grades 11 and 12 the upper end is 11.
\<close>

lemma set_grade_filtered:
  "set (grade_filtered R lib l subj) =
     {c \<in> set (contents lib). lower R (subject c) = lower R subj \<and>
        max 1 (grade l - 1) \<le> grade_level c \<and> grade_level c < min 12 (grade l + 2)}"
  by (auto simp: grade_filtered_def grade_filter_def in_range_def grade_range_def
                 set_search_subject)

lemma set_grade_filtered_window:
  "grade l \<le> 10 \<Longrightarrow>
   set (grade_filtered R lib l subj) =
     {c \<in> set (contents lib). lower R (subject c) = lower R subj \<and>
        max 1 (grade l - 1) \<le> grade_level c \<and> grade_level c \<le> min 12 (grade l + 1)}"
  by (auto simp: set_grade_filtered)

text \<open>
  C1, at a failing input. A learner in grade 12 asks for \<open>math\<close> from the built-in library
  extended by an item of grade 11 and an item of grade 12. The item of grade 12 matches
  the subject and lies in the window \<open>[max 1 (g - 1), min 12 (g + 1)] = [11, 12]\<close>, yet the
  grade filter keeps the item of grade 11 only, and so does the generated path.
\<close>

theorem grade12_item_dropped:
  "valid_LearnerProfile grade12_learner \<and> valid_LearningContent math_012 \<and>
   math_012 \<in> set (search ascii_runtime senior_library ''math'' None None) \<and>
   max 1 (grade grade12_learner - 1) \<le> grade_level math_012 \<and>
   grade_level math_012 \<le> min 12 (grade grade12_learner + 1) \<and>
   grade_filtered ascii_runtime senior_library grade12_learner ''math'' = [math_011] \<and>
   generate ascii_runtime senior_library grade12_learner ''math'' =
     Inr \<lparr>learner = grade12_learner, content_sequence = [math_011], progress_pct = 0\<rparr>"
  by code_simp

text \<open>
  C4. The content sequence of the generated path has no two items with the same
  identifier; it is a subsequence of the partitioned list that holds every identifier of
  that list, each by its first occurrence there; and every item of it is in the
  library's full content list.
\<close>

theorem generate_unique_first_occurrences:
  "\<exists>p. generate R lib l subj = Inr p \<and>
       distinct (map content_id (content_sequence p)) \<and>
       subseq (content_sequence p) (partitioned R lib l subj) \<and>
       content_id ` set (content_sequence p) = content_id ` set (partitioned R lib l subj) \<and>
       (\<forall>c \<in> set (content_sequence p).
          find (\<lambda>d. content_id d = content_id c) (partitioned R lib l subj) = Some c) \<and>
       set (content_sequence p) \<subseteq> set (all_content lib)"
proof -
  let ?seq = "dedup (partitioned R lib l subj) {} []"
  have 1: "distinct (map content_id ?seq)" by (rule distinct_dedup)
  have 2: "subseq ?seq (partitioned R lib l subj)" by (rule subseq_dedup)
  have 3: "content_id ` set ?seq = content_id ` set (partitioned R lib l subj)"
    by (simp add: ids_dedup)
  have 4: "\<forall>c \<in> set ?seq. find (\<lambda>d. content_id d = content_id c) (partitioned R lib l subj) = Some c"
    by (blast intro: first_dedup)
  have 5: "set ?seq \<subseteq> set (all_content lib)"
    using set_dedup[of "partitioned R lib l subj" "{}"] set_candidates[of R lib l subj]
    by (simp add: set_partitioned all_content_def)
  from 1 2 3 4 5 show ?thesis by (simp add: generate_eq)
qed

text \<open>
  With an added activity that reuses the identifier \<open>math-004\<close>, the partitioned list of
  the fixture's learner holds that identifier twice, the activity first; the path keeps
  the activity and drops the built-in item.
\<close>

lemma game_partitioned:
  "map (\<lambda>c. (content_id c, topic c)) (partitioned ascii_runtime game_library grade5_visual_learner ''math'') =
     [(''math-004'', ''Fractions Game''), (''math-004'', ''Fractions''),
      (''math-005'', ''Fractions Quiz'')]"
  by code_simp

lemma game_sequence:
  "map (\<lambda>c. (content_id c, topic c))
     (dedup (partitioned ascii_runtime game_library grade5_visual_learner ''math'') {} []) =
     [(''math-004'', ''Fractions Game''), (''math-005'', ''Fractions Quiz'')]"
  by code_simp

theorem generate_unique_first_occurrences_witness:
  "\<exists>p. generate ascii_runtime game_library grade5_visual_learner ''math'' = Inr p \<and>
       map (\<lambda>c. (content_id c, topic c))
         (partitioned ascii_runtime game_library grade5_visual_learner ''math'') =
         [(''math-004'', ''Fractions Game''), (''math-004'', ''Fractions''),
          (''math-005'', ''Fractions Quiz'')] \<and>
       map (\<lambda>c. (content_id c, topic c)) (content_sequence p) =
         [(''math-004'', ''Fractions Game''), (''math-005'', ''Fractions Quiz'')] \<and>
       distinct (map content_id (content_sequence p)) \<and>
       set (content_sequence p) \<subseteq> set (all_content game_library)"
proof -
  from generate_unique_first_occurrences[of ascii_runtime game_library grade5_visual_learner "''math''"]
  obtain p where p: "generate ascii_runtime game_library grade5_visual_learner ''math'' = Inr p"
    and d: "distinct (map content_id (content_sequence p))"
    and s: "set (content_sequence p) \<subseteq> set (all_content game_library)"
    by blast
  from p have "content_sequence p =
      dedup (partitioned ascii_runtime game_library grade5_visual_learner ''math'') {} []"
    by (auto simp: generate_eq)
  then have "map (\<lambda>c. (content_id c, topic c)) (content_sequence p) =
      [(''math-004'', ''Fractions Game''), (''math-005'', ''Fractions Quiz'')]"
    by (simp only: game_sequence)
  with p d s game_partitioned show ?thesis by (intro exI[of _ p] conjI)
qed

subsection \<open>The order of the path\<close>

lemma rank_eq: "dict_get DIFFICULTY_ORDER d 1 = spec_rank d"
  by (simp add: dict_get_def DIFFICULTY_ORDER_def spec_rank_def)

lemma target_eq: "starting_difficulty R l subj = spec_target R l subj"
proof -
  have "lower R subj \<in> lower R ` set (weaknesses l) \<longleftrightarrow>
        (\<exists>w \<in> set (weaknesses l). lower R w = lower R subj)"
    by (auto simp: image_iff intro: sym)
  then show ?thesis by (simp add: starting_difficulty_def is_weak_def spec_target_def)
qed

lemma path_sort_key_eq:
  "path_sort_key (starting_difficulty R l subj) c = (spec_distance R l subj c, grade_level c)"
  by (simp add: path_sort_key_def Let_def rank_eq target_eq spec_distance_def)

lemma preferred_eq: "preferred_type l = spec_preferred l"
  by (simp add: preferred_type_def dict_get_def style_pref_def spec_preferred_def)

lemma ordered_eq:
  "ordered R lib l subj =
     sort_key (\<lambda>c. (spec_distance R l subj c, grade_level c)) (candidates R lib l subj)"
proof -
  have "path_sort_key (starting_difficulty R l subj) =
        (\<lambda>c. (spec_distance R l subj c, grade_level c))"
    by (intro ext) (rule path_sort_key_eq)
  then show ?thesis by (simp add: ordered_def)
qed

lemma dedup_first_by_id:
  "dedup xs seen [] = filter (\<lambda>y. content_id y \<notin> seen) (first_by_id xs)"
proof (induction xs arbitrary: seen)
  case Nil
  show ?case by simp
next
  case (Cons x xs)
  have "filter (\<lambda>y. content_id y \<notin> insert (content_id x) seen) (first_by_id xs) =
        filter (\<lambda>y. content_id y \<notin> seen)
          (filter (\<lambda>y. content_id y \<noteq> content_id x) (first_by_id xs))"
    by (auto intro: filter_cong)
  moreover have "filter (\<lambda>y. content_id y \<notin> seen)
          (filter (\<lambda>y. content_id y \<noteq> content_id x) (first_by_id xs)) =
        filter (\<lambda>y. content_id y \<notin> seen) (first_by_id xs)" if "content_id x \<in> seen"
    using that by (auto intro: filter_cong)
  ultimately show ?case
    by (simp only: dedup_Cons Cons.IH first_by_id.simps filter.simps split: if_splits) simp
qed

lemma candidates_eq:
  "candidates R lib l subj = spec_sort_input l (search R lib subj None None)"
  by (simp add: candidates_def grade_filtered_def spec_sort_input_def)

text \<open>
  C5. \<^verbatim>\<open>generate\<close> returns a path. Its content sequence comes from a list \<open>srt\<close> that is
  the grade-filtered items of the subject (all items of the subject when the grade
  filter keeps none) in sorted order: it has the same items, it is ordered by the
  distance between the rank of the item's difficulty and the rank of the target
  difficulty, then by grade level, and items equal in both appear in the order they had
  before the sort. The content sequence is the items of \<open>srt\<close> of the preferred content
  type, in the order of \<open>srt\<close>, followed by the other items of \<open>srt\<close>, in the order of
  \<open>srt\<close>, without the items whose identifier an earlier item has.
\<close>

theorem generate_order_and_partition:
  "\<exists>p srt.
     generate R lib l subj = Inr p \<and>
     mset srt = mset (spec_sort_input l (search R lib subj None None)) \<and>
     sorted_wrt (\<lambda>a b. spec_distance R l subj a < spec_distance R l subj b \<or>
                   (spec_distance R l subj a = spec_distance R l subj b \<and>
                    grade_level a \<le> grade_level b)) srt \<and>
     (\<forall>k. filter (\<lambda>c. (spec_distance R l subj c, grade_level c) = k) srt =
          filter (\<lambda>c. (spec_distance R l subj c, grade_level c) = k)
            (spec_sort_input l (search R lib subj None None))) \<and>
     content_sequence p =
       first_by_id (filter (\<lambda>c. content_type c = spec_preferred l) srt @
                    filter (\<lambda>c. content_type c \<noteq> spec_preferred l) srt)"
proof -
  let ?key = "\<lambda>c. (spec_distance R l subj c, grade_level c)"
  let ?inp = "spec_sort_input l (search R lib subj None None)"
  let ?srt = "ordered R lib l subj"
  let ?p = "\<lparr>learner = l, content_sequence = dedup (partitioned R lib l subj) {} [],
             progress_pct = 0\<rparr>"
  have o: "?srt = sort_key ?key ?inp" by (simp only: ordered_eq candidates_eq)
  have 0: "generate R lib l subj = Inr ?p" by (rule generate_eq)
  have 1: "mset ?srt = mset ?inp" by (simp add: o)
  have "sorted (map ?key ?srt)" by (simp add: o)
  then have 2: "sorted_wrt (\<lambda>a b. spec_distance R l subj a < spec_distance R l subj b \<or>
                 (spec_distance R l subj a = spec_distance R l subj b \<and>
                  grade_level a \<le> grade_level b)) ?srt" by (simp only: sorted_pairs)
  have 3: "\<forall>k. filter (\<lambda>c. ?key c = k) ?srt = filter (\<lambda>c. ?key c = k) ?inp"
    by (simp only: o sort_key_stable) simp
  have "partitioned R lib l subj =
     filter (\<lambda>c. content_type c = spec_preferred l) ?srt @
     filter (\<lambda>c. content_type c \<noteq> spec_preferred l) ?srt"
    by (simp add: partitioned_def Let_def preferred_eq)
  then have 4: "content_sequence ?p =
       first_by_id (filter (\<lambda>c. content_type c = spec_preferred l) ?srt @
                    filter (\<lambda>c. content_type c \<noteq> spec_preferred l) ?srt)"
    by (simp add: dedup_first_by_id)
  from 0 1 2 3 4 show ?thesis by (intro exI[of _ ?p] exI[of _ ?srt] conjI)
qed

subsection \<open>The fallback\<close>

text \<open>
  C7. If the grade filter keeps nothing, the candidates are all items of the subject;
  and whenever the library holds an item of the subject, the generated path is not empty.
\<close>

theorem generate_fallback_nonempty:
  "(grade_filtered R lib l subj = [] \<longrightarrow> candidates R lib l subj = search R lib subj None None) \<and>
   ((\<exists>c \<in> set (contents lib). lower R (subject c) = lower R subj) \<longrightarrow>
      (\<exists>p. generate R lib l subj = Inr p \<and> content_sequence p \<noteq> []))"
proof (intro conjI impI)
  assume "grade_filtered R lib l subj = []"
  then show "candidates R lib l subj = search R lib subj None None" by (simp add: candidates_def)
next
  assume "\<exists>c \<in> set (contents lib). lower R (subject c) = lower R subj"
  then have "set (search R lib subj None None) \<noteq> {}" by (auto simp: set_search_subject)
  then have "set (candidates R lib l subj) \<noteq> {}" by (auto simp: candidates_def)
  then have "content_id ` set (partitioned R lib l subj) \<noteq> {}" by (simp add: set_partitioned)
  then have "content_id ` set (dedup (partitioned R lib l subj) {} []) \<noteq> {}"
    by (simp add: ids_dedup)
  then have "dedup (partitioned R lib l subj) {} [] \<noteq> []" by auto
  then show "\<exists>p. generate R lib l subj = Inr p \<and> content_sequence p \<noteq> []"
    by (simp add: generate_eq)
qed

text \<open>
  The built-in library has items for \<open>math\<close>, none of grade 11: for a learner in grade 12
  the grade filter keeps nothing, and the path holds all ten.
\<close>

lemma builtin_grade12_filtered: "grade_filtered ascii_runtime new_ContentLibrary grade12_learner ''math'' = []"
  by code_simp

lemma builtin_has_math:
  "list_ex (\<lambda>c. lower ascii_runtime (subject c) = lower ascii_runtime ''math'') (contents new_ContentLibrary)"
  by code_simp

lemma builtin_grade12_length:
  "length (dedup (partitioned ascii_runtime new_ContentLibrary grade12_learner ''math'') {} []) = 10"
  by code_simp

theorem generate_fallback_nonempty_witness:
  "grade_filtered ascii_runtime new_ContentLibrary grade12_learner ''math'' = [] \<and>
   candidates ascii_runtime new_ContentLibrary grade12_learner ''math'' =
     search ascii_runtime new_ContentLibrary ''math'' None None \<and>
   list_ex (\<lambda>c. lower ascii_runtime (subject c) = lower ascii_runtime ''math'') (contents new_ContentLibrary) \<and>
   (\<exists>p. generate ascii_runtime new_ContentLibrary grade12_learner ''math'' = Inr p \<and>
        content_sequence p \<noteq> [] \<and> length (content_sequence p) = 10)"
proof -
  note t = generate_fallback_nonempty[of ascii_runtime new_ContentLibrary grade12_learner "''math''"]
  from t builtin_grade12_filtered
  have c: "candidates ascii_runtime new_ContentLibrary grade12_learner ''math'' =
     search ascii_runtime new_ContentLibrary ''math'' None None" by blast
  from builtin_has_math
  have "\<exists>c \<in> set (contents new_ContentLibrary). lower ascii_runtime (subject c) = lower ascii_runtime ''math''"
    by (simp add: list_ex_iff)
  with t obtain p where p: "generate ascii_runtime new_ContentLibrary grade12_learner ''math'' = Inr p"
    and n: "content_sequence p \<noteq> []" by blast
  from p have "length (content_sequence p) = 10"
    by (auto simp: generate_eq builtin_grade12_length)
  with builtin_grade12_filtered c builtin_has_math p n show ?thesis by blast
qed

section \<open>Properties of the floating-point model\<close>

subsection \<open>Rounding to an integer\<close>

lemma round_half_even_cases:
  "round_half_even x = \<lfloor>x\<rfloor> \<or> round_half_even x = \<lfloor>x\<rfloor> + 1"
  by (simp add: round_half_even_def Let_def)

lemma round_half_even_error: "\<bar>of_int (round_half_even x) - x\<bar> \<le> 1 / 2"
proof -
  have "of_int \<lfloor>x\<rfloor> \<le> x" "x < of_int \<lfloor>x\<rfloor> + 1" by linarith+
  then show ?thesis by (auto simp: round_half_even_def Let_def)
qed

lemma round_half_even_of_int [simp]: "round_half_even (of_int n) = n"
  by (simp add: round_half_even_def Let_def)

lemma round_half_even_near:
  assumes "\<bar>x - of_int k\<bar> < 1 / 2"
  shows "round_half_even x = k"
proof -
  from round_half_even_error[of x] assms
  have "\<bar>(of_int (round_half_even x) :: rat) - of_int k\<bar> < 1" by linarith
  then have "\<bar>of_int (round_half_even x - k) :: rat\<bar> < 1" by simp
  then have "\<bar>round_half_even x - k\<bar> < 1" by (metis of_int_abs of_int_less_1_iff)
  then show ?thesis by linarith
qed

lemma round_half_even_tie:
  assumes "x = of_int k + 1 / 2"
  shows "round_half_even x = (if even k then k else k + 1)"
proof -
  from assms have "\<lfloor>x\<rfloor> = k" by (intro floor_unique) simp_all
  with assms show ?thesis by (simp add: round_half_even_def Let_def)
qed

lemma round_half_even_mono:
  assumes "x \<le> y"
  shows "round_half_even x \<le> round_half_even y"
proof (rule ccontr)
  assume "\<not> round_half_even x \<le> round_half_even y"
  then have "round_half_even y + 1 \<le> round_half_even x" by simp
  then have "(of_int (round_half_even y) :: rat) + 1 \<le> of_int (round_half_even x)"
    by (metis of_int_1 of_int_add of_int_le_iff)
  with round_half_even_error[of x] round_half_even_error[of y] assms
  have "x = y" by linarith
  with \<open>\<not> round_half_even x \<le> round_half_even y\<close> show False by simp
qed

subsection \<open>The binary exponent\<close>

lemma bit_length_pos: "0 < a \<Longrightarrow> 0 < bit_length a"
  by (subst bit_length.simps) simp

lemma bit_length_bounds:
  "0 < a \<Longrightarrow> 2 ^ (bit_length a - 1) \<le> a \<and> a < 2 ^ bit_length a"
proof (induction a rule: bit_length.induct)
  case (1 a)
  show ?case
  proof (cases "a div 2 = 0")
    case True
    with "1.prems" have "a = 1" by presburger
    then show ?thesis by (simp add: bit_length.simps[of 1] bit_length.simps[of 0])
  next
    case False
    with "1.prems" have h: "0 < a div 2" by presburger
    define k where "k = bit_length (a div 2)"
    from "1.IH"[OF _ h] "1.prems"
    have ih: "2 ^ (k - 1) \<le> a div 2" "a div 2 < 2 ^ k" by (simp_all add: k_def)
    from bit_length_pos[OF h] have k: "0 < k" by (simp add: k_def)
    then have p: "(2::int) ^ k = 2 * 2 ^ (k - 1)" by (cases k) simp_all
    from "1.prems" have b: "bit_length a = Suc k" by (subst bit_length.simps) (simp add: k_def)
    have "2 * (a div 2) \<le> a" "a < 2 * (a div 2) + 2" by presburger+
    with ih p have "2 ^ k \<le> a" "a < 2 * 2 ^ k" by linarith+
    then show ?thesis by (simp add: b)
  qed
qed

lemma binade_bounds:
  assumes "x \<noteq> 0"
  shows "2 powi binade x \<le> \<bar>x\<bar> \<and> \<bar>x\<bar> < 2 powi (binade x + 1)"
proof -
  obtain a b where q: "quotient_of \<bar>x\<bar> = (a, b)" by (cases "quotient_of \<bar>x\<bar>")
  then have b: "0 < b" by (rule quotient_of_denom_pos)
  from q have x: "\<bar>x\<bar> = of_int a / of_int b" by (rule quotient_of_div)
  have pb: "(0::rat) < of_int b" using b by simp
  have "(0::rat) < of_int a / of_int b" using assms x by (metis zero_less_abs_iff)
  with pb have "(0::rat) < of_int a" by (simp add: zero_less_divide_iff)
  then have a: "0 < a" by simp
  define la lb where "la = bit_length a" and "lb = bit_length b"
  from bit_length_bounds[OF a] bit_length_bounds[OF b]
  have ia: "2 ^ (la - 1) \<le> a" "a < 2 ^ la" and ib: "2 ^ (lb - 1) \<le> b" "b < 2 ^ lb"
    by (simp_all add: la_def lb_def)
  have la: "0 < la" and lb: "0 < lb"
    unfolding la_def lb_def using a b by (simp_all add: bit_length_pos)
  have ra: "(2::rat) ^ (la - 1) \<le> of_int a" "(of_int a :: rat) < 2 ^ la"
    and rb: "(2::rat) ^ (lb - 1) \<le> of_int b" "(of_int b :: rat) < 2 ^ lb"
    using ia ib by (metis of_int_le_iff of_int_less_iff of_int_numeral of_int_power)+
  define k where "k = int la - int lb"
  have bin: "binade x = (if 2 powi k \<le> \<bar>x\<bar> then k else k - 1)"
    by (simp add: binade_def q la_def lb_def k_def Let_def)
  have up: "\<bar>x\<bar> < 2 powi (k + 1)"
  proof -
    have "of_int a * 2 ^ lb < (2::rat) ^ la * (2 * of_int b)"
    proof -
      have e: "(2::rat) ^ lb = 2 * 2 ^ (lb - 1)" using lb by (cases lb) simp_all
      have "of_int a * 2 ^ lb < (2::rat) ^ la * 2 ^ lb" using ra(2) by simp
      also have "\<dots> = 2 ^ la * (2 * 2 ^ (lb - 1))" using e by simp
      also have "\<dots> \<le> 2 ^ la * (2 * of_int b)" using rb(1) by simp
      finally show ?thesis .
    qed
    then have "of_int a / of_int b < (2::rat) ^ la * 2 / 2 ^ lb"
      using pb by (simp add: field_simps)
    also have "(2::rat) ^ la * 2 / 2 ^ lb = 2 powi (k + 1)"
      by (simp add: k_def power_int_add power_int_diff)
    finally show ?thesis by (simp add: x)
  qed
  have low: "2 powi (k - 1) \<le> \<bar>x\<bar>"
  proof -
    have "(2::rat) ^ la * of_int b \<le> (2 * of_int a) * 2 ^ lb"
    proof -
      have e: "(2::rat) ^ la = 2 * 2 ^ (la - 1)" using la by (cases la) simp_all
      have "(2::rat) ^ la * of_int b = 2 * 2 ^ (la - 1) * of_int b" using e by simp
      also have "\<dots> \<le> (2 * of_int a) * (of_int b :: rat)" using ra(1) pb by simp
      also have "\<dots> \<le> (2 * of_int a) * 2 ^ lb" using rb(2) a by simp
      finally show ?thesis .
    qed
    then have "(2::rat) ^ la / (2 * 2 ^ lb) \<le> of_int a / of_int b"
      using pb by (simp add: field_simps)
    moreover have "(2::rat) ^ la / (2 * 2 ^ lb) = 2 powi (k - 1)"
      by (simp add: k_def power_int_diff)
    ultimately show ?thesis by (simp add: x)
  qed
  show ?thesis
  proof (cases "2 powi k \<le> \<bar>x\<bar>")
    case True
    with bin up show ?thesis by simp
  next
    case False
    with bin low show ?thesis by simp
  qed
qed

lemma two_powi_less_imp:
  assumes "(2::rat) powi m < 2 powi n"
  shows "m < n"
proof (rule ccontr)
  assume "\<not> m < n"
  then have "(2::rat) powi n \<le> 2 powi m" by (intro power_int_increasing) simp_all
  with assms show False by simp
qed

lemma binade_unique:
  assumes "2 powi e \<le> \<bar>x\<bar>" and "\<bar>x\<bar> < 2 powi (e + 1)"
  shows "binade x = e"
proof -
  have "(0::rat) < 2 powi e" by (simp add: zero_less_power_int)
  with assms(1) have "0 < \<bar>x\<bar>" by linarith
  then have "x \<noteq> 0" by simp
  from binade_bounds[OF this] assms
  have "(2::rat) powi e < 2 powi (binade x + 1)" "(2::rat) powi binade x < 2 powi (e + 1)"
    by linarith+
  then have "e < binade x + 1" "binade x < e + 1"
    by (auto dest: two_powi_less_imp)
  then show ?thesis by simp
qed

subsection \<open>Rounding to binary64\<close>

lemma to_float_0 [simp]: "to_float 0 = 0"
  by (simp add: to_float_def)

lemma to_float_at:
  assumes "2 powi e \<le> \<bar>x\<bar>" and "\<bar>x\<bar> < 2 powi (e + 1)"
  shows "to_float x = of_int (round_half_even (x / 2 powi (e - 52))) * 2 powi (e - 52)"
proof -
  have "(0::rat) < 2 powi e" by (simp add: zero_less_power_int)
  with assms(1) have "0 < \<bar>x\<bar>" by linarith
  then have "x \<noteq> 0" by simp
  with binade_unique[OF assms] show ?thesis by (simp add: to_float_def Let_def)
qed

lemma to_float_range:
  assumes "0 < x"
  shows "2 powi binade x \<le> to_float x \<and> to_float x \<le> 2 powi (binade x + 1)"
proof -
  define e where "e = binade x"
  define u :: rat where "u = 2 powi (e - 52)"
  have u: "0 < u" by (simp add: u_def zero_less_power_int)
  from assms binade_bounds[of x] have b: "2 powi e \<le> x" "x < 2 powi (e + 1)"
    by (simp_all add: e_def)
  have lo: "2 powi e = 2 ^ 52 * u" and hi: "2 powi (e + 1) = 2 ^ 53 * u"
    by (simp_all add: u_def power_int_diff power_int_add)
  have tf: "to_float x = of_int (round_half_even (x / u)) * u"
    using assms by (simp add: to_float_def Let_def e_def u_def)
  from b u have "2 ^ 52 \<le> x / u" "x / u \<le> 2 ^ 53"
    by (simp_all add: lo hi pos_le_divide_eq pos_divide_le_eq)
  then have "round_half_even (of_int (2 ^ 52)) \<le> round_half_even (x / u)"
       "round_half_even (x / u) \<le> round_half_even (of_int (2 ^ 53))"
    by (intro round_half_even_mono; simp)+
  then have "2 ^ 52 \<le> round_half_even (x / u)" "round_half_even (x / u) \<le> 2 ^ 53"
    by (simp_all only: round_half_even_of_int)
  then have "(2::rat) ^ 52 \<le> of_int (round_half_even (x / u))"
       "(of_int (round_half_even (x / u)) :: rat) \<le> 2 ^ 53"
    by (metis of_int_le_iff of_int_numeral of_int_power)+
  with u have "2 ^ 52 * u \<le> to_float x" "to_float x \<le> 2 ^ 53 * u"
    by (simp_all add: tf)
  then have "2 powi e \<le> to_float x" "to_float x \<le> 2 powi (e + 1)"
    by (simp_all only: lo hi)
  then show ?thesis by (simp add: e_def)
qed

lemma to_float_pos: "0 < x \<Longrightarrow> 0 < to_float x"
proof -
  assume "0 < x"
  from to_float_range[OF this] have "2 powi binade x \<le> to_float x" by simp
  moreover have "(0::rat) < 2 powi binade x" by (simp add: zero_less_power_int)
  ultimately show ?thesis by linarith
qed

lemma to_float_mono:
  assumes "0 \<le> x" and "x \<le> y"
  shows "to_float x \<le> to_float y"
proof (cases "x = 0")
  case True
  show ?thesis
  proof (cases "y = 0")
    case True
    with \<open>x = 0\<close> show ?thesis by simp
  next
    case False
    with assms True have "0 < y" by simp
    from to_float_pos[OF this] True show ?thesis by simp
  qed
next
  case False
  with assms have x: "0 < x" and y: "0 < y" by simp_all
  from binade_bounds[of x] binade_bounds[of y] x y assms(2)
  have "(2::rat) powi binade x < 2 powi (binade y + 1)" by simp
  then have le: "binade x \<le> binade y" by (auto dest: two_powi_less_imp)
  show ?thesis
  proof (cases "binade x = binade y")
    case True
    define u :: rat where "u = 2 powi (binade y - 52)"
    have u: "0 < u" by (simp add: u_def zero_less_power_int)
    from assms(2) u have "x / u \<le> y / u" by (simp add: divide_right_mono)
    then have "round_half_even (x / u) \<le> round_half_even (y / u)"
      by (rule round_half_even_mono)
    then have "(of_int (round_half_even (x / u)) :: rat) \<le> of_int (round_half_even (y / u))"
      by simp
    with u have "of_int (round_half_even (x / u)) * u \<le> of_int (round_half_even (y / u)) * u"
      by (simp add: mult_right_mono)
    with x y True show ?thesis by (simp add: to_float_def Let_def u_def)
  next
    case False
    with le have "binade x + 1 \<le> binade y" by simp
    then have "(2::rat) powi (binade x + 1) \<le> 2 powi binade y"
      by (intro power_int_increasing) simp_all
    with to_float_range[OF x] to_float_range[OF y] show ?thesis by linarith
  qed
qed

lemma to_float_error:
  assumes "0 < x"
  shows "\<bar>to_float x - x\<bar> \<le> x / 2 ^ 53"
proof -
  define e where "e = binade x"
  define u :: rat where "u = 2 powi (e - 52)"
  have u: "0 < u" by (simp add: u_def zero_less_power_int)
  from assms binade_bounds[of x] have b: "2 powi e \<le> x" by (simp add: e_def)
  have lo: "2 powi e = 2 ^ 52 * u" by (simp add: u_def power_int_diff)
  have tf: "to_float x = of_int (round_half_even (x / u)) * u"
    using assms by (simp add: to_float_def Let_def e_def u_def)
  have "to_float x - x = (of_int (round_half_even (x / u)) - x / u) * u"
    using u by (simp add: tf field_simps)
  then have "\<bar>to_float x - x\<bar> = \<bar>of_int (round_half_even (x / u)) - x / u\<bar> * u"
    using u by (simp add: abs_mult)
  also have "\<dots> \<le> 1 / 2 * u"
    using u round_half_even_error[of "x / u"] by (intro mult_right_mono) simp_all
  also have "\<dots> = 2 ^ 52 * u / 2 ^ 53" by simp
  also have "\<dots> \<le> x / 2 ^ 53" using b by (simp add: lo divide_right_mono)
  finally show ?thesis .
qed

lemma round_half_even_numeral [simp]: "round_half_even (numeral n) = numeral n"
  using round_half_even_of_int[of "numeral n"] by simp

lemma to_float_1 [simp]: "to_float 1 = 1"
  by (simp add: to_float_at[where e = 0])

lemma to_float_100 [simp]: "to_float 100 = 100"
  by (simp add: to_float_at[where e = 6])

section \<open>Properties of the assessment engine\<close>

subsection \<open>The judgement of an answer\<close>

lemma is_correct_eq: "is_correct R v = spec_judged_correct R v"
  by (cases v) (simp_all add: spec_judged_correct_def Let_def)

lemma judged_correct_eq: "judged_correct R a = spec_answer_correct R a"
  by (simp add: judged_correct_def spec_answer_correct_def dict_get_def is_correct_eq
           spec_judged_correct_def split: option.splits)

subsection \<open>The counts and the score\<close>

lemma correct_count_eq: "correct_count R answers = int (length (filter (judged_correct R) answers))"
  by (simp add: correct_count_def) (induction answers; simp)

lemma correct_count_range:
  "0 \<le> correct_count R answers \<and> correct_count R answers \<le> int (length answers)"
  by (simp add: correct_count_eq)

lemma percentage_eq:
  "n \<noteq> 0 \<Longrightarrow>
   percentage c n = Inr (py_round (float_mul (to_float (of_int c / of_int n)) 100) 1)"
  by (simp add: percentage_def truediv_def)

text \<open>The score of a count out of a positive total lies between 0 and 100.\<close>

lemma percentage_range:
  assumes "0 \<le> c" and "c \<le> n" and "0 < n"
  shows "\<exists>s. percentage c n = Inr s \<and> 0 \<le> s \<and> s \<le> 100"
proof -
  define q where "q = to_float (of_int c / of_int n)"
  define p where "p = float_mul q 100"
  define d where "d = round_half_even (p * 10)"
  from assms have "(0::rat) \<le> of_int c / of_int n" "(of_int c / of_int n :: rat) \<le> 1"
    by simp_all
  then have "to_float 0 \<le> q" "q \<le> to_float 1"
    unfolding q_def by (intro to_float_mono; simp)+
  then have q: "0 \<le> q" "q \<le> 1" by simp_all
  then have "to_float 0 \<le> p" "p \<le> to_float 100"
    unfolding p_def float_mul_def by (intro to_float_mono; simp)+
  then have p: "0 \<le> p" "p \<le> 100" by simp_all
  then have "round_half_even 0 \<le> d" "d \<le> round_half_even 1000"
    unfolding d_def by (intro round_half_even_mono; simp)+
  then have d: "0 \<le> d" "d \<le> 1000"
    using round_half_even_of_int[of 0] by simp_all
  then have "(0::rat) \<le> of_int d / 10" "(of_int d / 10 :: rat) \<le> 100" by simp_all
  then have "to_float 0 \<le> to_float (of_int d / 10)" "to_float (of_int d / 10) \<le> to_float 100"
    by (intro to_float_mono; simp)+
  then have "0 \<le> py_round p 1" "py_round p 1 \<le> 100"
    by (simp_all add: py_round_def d_def)
  moreover from assms(3) have "percentage c n = Inr (py_round p 1)"
    by (simp add: percentage_eq p_def q_def)
  ultimately show ?thesis by simp
qed

lemma percentage_all_correct:
  assumes "0 < n"
  shows "percentage n n = Inr 100"
proof -
  from assms have "(of_int n / of_int n :: rat) = 1" by simp
  with assms show ?thesis
    by (simp add: percentage_eq float_mul_def py_round_def)
qed

subsection \<open>The topics of the incorrect answers\<close>

lemma collect_incorrect_append:
  "collect_incorrect R subj (xs @ ys) acc = collect_incorrect R subj ys (collect_incorrect R subj xs acc)"
  by (induction xs arbitrary: acc) (simp_all add: Let_def)

lemma first_occurrences_snoc:
  "first_occurrences (xs @ [x]) =
     (if x \<in> set xs then first_occurrences xs else first_occurrences xs @ [x])"
  by (simp add: first_occurrences_def)

lemma set_first_occurrences [simp]: "set (first_occurrences xs) = set xs"
  by (simp add: first_occurrences_def)

lemma distinct_first_occurrences [simp]: "distinct (first_occurrences xs)"
  by (simp add: first_occurrences_def)

lemma first_occurrences_Nil [simp]: "first_occurrences [] = []"
  by (simp add: first_occurrences_def)

lemma first_occurrences_empty [simp]: "first_occurrences xs = [] \<longleftrightarrow> xs = []"
  by (metis set_first_occurrences set_empty)

lemma collect_incorrect_eq:
  "collect_incorrect R subj answers [] =
     first_occurrences (map (topic_of subj) (filter (\<lambda>a. \<not> judged_correct R a) answers))"
proof (induction answers rule: rev_induct)
  case Nil
  show ?case by simp
next
  case (snoc a answers)
  show ?case
    by (simp add: collect_incorrect_append snoc.IH first_occurrences_snoc Let_def)
qed

subsection \<open>The result\<close>

text \<open>
  The result depends on the runtime through the trimmed lower-case forms of the
  correctness values that are strings only.
\<close>

lemma evaluate_runtime_cong:
  assumes "\<forall>a \<in> set answers. \<forall>s. a ''correct'' = Some (PyStr s) \<longrightarrow>
             lower R' (strip R' s) = lower R (strip R s)"
  shows "evaluate R' lid subj answers = evaluate R lid subj answers"
proof -
  have j: "judged_correct R' a = judged_correct R a" if "a \<in> set answers" for a
  proof (cases "a ''correct''")
    case None
    then show ?thesis by (simp add: judged_correct_def dict_get_def)
  next
    case (Some v)
    with that assms show ?thesis
      by (cases v) (simp_all add: judged_correct_def dict_get_def)
  qed
  then have f: "filter (judged_correct R') answers = filter (judged_correct R) answers"
    and g: "filter (\<lambda>a. \<not> judged_correct R' a) answers =
            filter (\<lambda>a. \<not> judged_correct R a) answers"
    by (auto intro: filter_cong)
  from f have c: "correct_count R' answers = correct_count R answers"
    by (simp only: correct_count_def)
  from g have t: "collect_incorrect R' subj answers [] = collect_incorrect R subj answers []"
    by (simp only: collect_incorrect_eq)
  show ?thesis by (simp only: evaluate_def c t)
qed

text \<open>\<^verbatim>\<open>evaluate\<close> never raises: the divisor is not 0 and the score is in the field's range.\<close>

lemma evaluate_nonempty:
  assumes "answers \<noteq> []"
  shows "\<exists>sc. percentage (correct_count R answers) (int (length answers)) = Inr sc \<and>
          0 \<le> sc \<and> sc \<le> 100 \<and>
          evaluate R lid subj answers =
            Inr \<lparr>result_learner_id = lid, result_subject = subj, score = sc,
                 areas_to_improve =
                   (let areas = (if sc < 40
                                 then collect_incorrect R subj answers [] @
                                        [''Fundamental concepts in '' @ subj]
                                 else collect_incorrect R subj answers [])
                    in if areas = [] then [EXCELLENT] else areas)\<rparr>"
proof -
  from assms have "0 < int (length answers)" by simp
  with correct_count_range[of R answers] percentage_range
  obtain sc where sc: "percentage (correct_count R answers) (int (length answers)) = Inr sc"
    and r: "0 \<le> sc" "sc \<le> 100" by blast
  from assms sc r have "evaluate R lid subj answers =
            Inr \<lparr>result_learner_id = lid, result_subject = subj, score = sc,
                 areas_to_improve =
                   (let areas = (if sc < 40
                                 then collect_incorrect R subj answers [] @
                                        [''Fundamental concepts in '' @ subj]
                                 else collect_incorrect R subj answers [])
                    in if areas = [] then [EXCELLENT] else areas)\<rparr>"
    by (simp add: evaluate_def new_AssessmentResult_def Let_def)
  with sc r show ?thesis by blast
qed

lemma percentage_none_correct:
  assumes "0 < n"
  shows "percentage 0 n = Inr 0"
  using assms round_half_even_of_int[of 0]
  by (simp add: percentage_eq float_mul_def py_round_def)

text \<open>
  C2. \<^verbatim>\<open>evaluate\<close> judges an answer record by the specification's rule: a correctness
  value that is a string is correct if and only if, trimmed and in lower case, it is none
  of \<open>false\<close>, \<open>0\<close>, \<open>no\<close> and the empty string, and a value that is not a string is
  correct if and only if it is true. The judgement shows in the result. A single answer
  has the score 100.0 if the rule judges it correct and 0.0 if not. For a non-empty list
  of answers, the score is the percentage of the answers that the rule judges correct,
  and the areas to improve are built from the topics of the answers that the rule judges
  incorrect.
\<close>

theorem evaluate_judgement:
  "(\<exists>r. evaluate R lid subj [a] = Inr r \<and>
        score r = (if spec_answer_correct R a then 100 else 0)) \<and>
   (answers \<noteq> [] \<longrightarrow>
      (\<exists>r. evaluate R lid subj answers = Inr r \<and>
           percentage (int (length (filter (spec_answer_correct R) answers)))
             (int (length answers)) = Inr (score r) \<and>
           (let topics = first_occurrences
                           (map (topic_of subj)
                              (filter (\<lambda>a. \<not> spec_answer_correct R a) answers));
                areas = (if score r < 40 then topics @ [''Fundamental concepts in '' @ subj]
                         else topics)
            in areas_to_improve r = (if areas = [] then [EXCELLENT] else areas))))"
proof -
  have jc: "judged_correct R = spec_answer_correct R"
    by (intro ext) (rule judged_correct_eq)
  have general: "\<exists>r. evaluate R lid subj xs = Inr r \<and>
           percentage (int (length (filter (spec_answer_correct R) xs)))
             (int (length xs)) = Inr (score r) \<and>
           (let topics = first_occurrences
                           (map (topic_of subj)
                              (filter (\<lambda>a. \<not> spec_answer_correct R a) xs));
                areas = (if score r < 40 then topics @ [''Fundamental concepts in '' @ subj]
                         else topics)
            in areas_to_improve r = (if areas = [] then [EXCELLENT] else areas))"
    if ne: "xs \<noteq> []" for xs
  proof -
    from evaluate_nonempty[OF ne, where R = R and lid = lid and subj = subj]
    obtain sc where sc: "percentage (correct_count R xs) (int (length xs)) = Inr sc"
      and ev: "evaluate R lid subj xs =
            Inr \<lparr>result_learner_id = lid, result_subject = subj, score = sc,
                 areas_to_improve =
                   (let areas = (if sc < 40
                                 then collect_incorrect R subj xs [] @
                                        [''Fundamental concepts in '' @ subj]
                                 else collect_incorrect R subj xs [])
                    in if areas = [] then [EXCELLENT] else areas)\<rparr>"
      by blast
    define topics where
      "topics = first_occurrences
                  (map (topic_of subj) (filter (\<lambda>a. \<not> spec_answer_correct R a) xs))"
    have t: "collect_incorrect R subj xs [] = topics"
      by (simp add: topics_def collect_incorrect_eq jc)
    define areas where
      "areas = (if sc < 40 then topics @ [''Fundamental concepts in '' @ subj] else topics)"
    let ?r = "\<lparr>result_learner_id = lid, result_subject = subj, score = sc,
               areas_to_improve = (if areas = [] then [EXCELLENT] else areas)\<rparr>"
    have 1: "evaluate R lid subj xs = Inr ?r"
      by (simp only: ev t Let_def areas_def)
    have 2: "percentage (int (length (filter (spec_answer_correct R) xs)))
               (int (length xs)) = Inr (score ?r)"
      using sc by (simp add: correct_count_eq jc)
    have 3: "let topics = first_occurrences
                           (map (topic_of subj)
                              (filter (\<lambda>a. \<not> spec_answer_correct R a) xs));
                areas = (if score ?r < 40 then topics @ [''Fundamental concepts in '' @ subj]
                         else topics)
            in areas_to_improve ?r = (if areas = [] then [EXCELLENT] else areas)"
      by (simp add: Let_def topics_def areas_def)
    from 1 2 3 show ?thesis by (intro exI[of _ ?r] conjI)
  qed
  have single: "\<exists>r. evaluate R lid subj [a] = Inr r \<and>
        score r = (if spec_answer_correct R a then 100 else 0)"
  proof -
    from general[of "[a]"]
    obtain r where ev: "evaluate R lid subj [a] = Inr r"
      and sc: "percentage (int (length (filter (spec_answer_correct R) [a])))
                 (int (length [a])) = Inr (score r)"
      by blast
    from sc percentage_all_correct[of 1] percentage_none_correct[of 1]
    have "score r = (if spec_answer_correct R a then 100 else 0)"
      by (simp split: if_splits)
    with ev show ?thesis by blast
  qed
  from single general[of answers] show ?thesis by blast
qed

text \<open>
  C8. The empty answer list yields the score 0.0 and the one message
  \<open>No answers provided \<emdash> please attempt the assessment.\<close> (the dash is U+2014).
\<close>

theorem evaluate_no_answers:
  "evaluate R lid subj [] =
     Inr \<lparr>result_learner_id = lid, result_subject = subj, score = 0,
          areas_to_improve = [NO_ANSWERS]\<rparr> \<and>
   NO_ANSWERS =
     ''No answers provided '' @ [CHR 0xE2, CHR 0x80, CHR 0x94] @
     '' please attempt the assessment.''"
  by (simp add: evaluate_def new_AssessmentResult_def NO_ANSWERS_def)

text \<open>
  C6. For a non-empty answer list the areas to improve are: the topics of the answers
  judged incorrect, each once, in the order of their first occurrences (two topics that
  differ in case only are two topics); then, if the score is below 40, the message
  \<open>Fundamental concepts in\<close> followed by the subject, appended whatever the list holds;
  and, if that list is empty, the one message
  \<open>Continue to advanced topics \<emdash> excellent performance!\<close> instead. The list is empty
  exactly when every answer is judged correct.
\<close>

theorem evaluate_areas:
  "answers \<noteq> [] \<Longrightarrow>
   \<exists>r. evaluate R lid subj answers = Inr r \<and>
       percentage (correct_count R answers) (int (length answers)) = Inr (score r) \<and>
       (let topics = first_occurrences
                       (map (topic_of subj) (filter (\<lambda>a. \<not> judged_correct R a) answers));
            areas = (if score r < 40 then topics @ [''Fundamental concepts in '' @ subj]
                     else topics)
        in areas_to_improve r = (if areas = [] then [EXCELLENT] else areas) \<and>
           (areas = [] \<longleftrightarrow> list_all (judged_correct R) answers)) \<and>
       EXCELLENT =
         ''Continue to advanced topics '' @ [CHR 0xE2, CHR 0x80, CHR 0x94] @
         '' excellent performance!''"
proof -
  assume ne: "answers \<noteq> []"
  from evaluate_nonempty[OF ne, where R = R and lid = lid and subj = subj]
  obtain sc where sc: "percentage (correct_count R answers) (int (length answers)) = Inr sc"
    and ev: "evaluate R lid subj answers =
            Inr \<lparr>result_learner_id = lid, result_subject = subj, score = sc,
                 areas_to_improve =
                   (let areas = (if sc < 40
                                 then collect_incorrect R subj answers [] @
                                        [''Fundamental concepts in '' @ subj]
                                 else collect_incorrect R subj answers [])
                    in if areas = [] then [EXCELLENT] else areas)\<rparr>"
    by blast
  define topics where
    "topics = first_occurrences
                (map (topic_of subj) (filter (\<lambda>a. \<not> judged_correct R a) answers))"
  have t: "collect_incorrect R subj answers [] = topics"
    by (simp add: topics_def collect_incorrect_eq)
  have e: "topics = [] \<longleftrightarrow> list_all (judged_correct R) answers"
    by (simp add: topics_def filter_empty_conv list_all_iff)
  have hi: "\<not> sc < 40" if "list_all (judged_correct R) answers"
  proof -
    from that have "filter (judged_correct R) answers = answers"
      by (simp add: list_all_iff)
    then have "correct_count R answers = int (length answers)" by (simp add: correct_count_eq)
    with sc ne percentage_all_correct[of "int (length answers)"] have "sc = 100" by simp
    then show ?thesis by simp
  qed
  define areas where
    "areas = (if sc < 40 then topics @ [''Fundamental concepts in '' @ subj] else topics)"
  have ae: "areas = [] \<longleftrightarrow> list_all (judged_correct R) answers"
    using e hi by (auto simp: areas_def)
  let ?r = "\<lparr>result_learner_id = lid, result_subject = subj, score = sc,
             areas_to_improve = (if areas = [] then [EXCELLENT] else areas)\<rparr>"
  have 1: "evaluate R lid subj answers = Inr ?r"
    by (simp only: ev t Let_def areas_def)
  have 2: "percentage (correct_count R answers) (int (length answers)) = Inr (score ?r)"
    using sc by simp
  have 3: "areas_to_improve ?r = (if areas = [] then [EXCELLENT] else areas) \<and>
           (areas = [] \<longleftrightarrow> list_all (judged_correct R) answers)"
    using ae by simp
  have 4: "(if score ?r < 40 then topics @ [''Fundamental concepts in '' @ subj] else topics)
           = areas"
    by (simp add: areas_def)
  have 5: "let topics = first_occurrences
                       (map (topic_of subj) (filter (\<lambda>a. \<not> judged_correct R a) answers));
            areas = (if score ?r < 40 then topics @ [''Fundamental concepts in '' @ subj]
                     else topics)
        in areas_to_improve ?r = (if areas = [] then [EXCELLENT] else areas) \<and>
           (areas = [] \<longleftrightarrow> list_all (judged_correct R) answers)"
    unfolding Let_def topics_def[symmetric] 4 by (rule 3)
  have 6: "EXCELLENT =
         ''Continue to advanced topics '' @ [CHR 0xE2, CHR 0x80, CHR 0x94] @
         '' excellent performance!''"
    by (simp add: EXCELLENT_def)
  from 1 2 5 6 show ?thesis by (intro exI[of _ ?r] conjI)
qed

subsection \<open>Evaluating the score at given counts\<close>

text \<open>
  The rounded value is the integer nearer than one half; with the exponent and the
  significand given, the conditions are comparisons of numerals.
\<close>

lemma to_floatI:
  assumes "2 powi e \<le> \<bar>x\<bar>" and "\<bar>x\<bar> < 2 powi (e + 1)"
    and "\<bar>x / 2 powi (e - 52) - of_int m\<bar> < 1 / 2"
    and "y = of_int m * 2 powi (e - 52)"
  shows "to_float x = y"
  using to_float_at[OF assms(1,2)] round_half_even_near[OF assms(3)] assms(4) by simp

lemma percentageI:
  assumes "n \<noteq> 0" and "to_float (of_int c / of_int n) = q" and "to_float (q * 100) = p"
    and "\<bar>p * 10 - of_int d\<bar> < 1 / 2"
  shows "percentage c n = Inr (to_float (of_int d / 10))"
  using assms(1,2,3) round_half_even_near[OF assms(4)]
  by (simp add: percentage_eq float_mul_def py_round_def)

text \<open>
  Four answers, one of them right, two wrong on \<open>Fractions\<close> and one wrong on
  \<open>fractions\<close>: the score is 25.0, and the areas are the two topics and the message.
\<close>

lemma percentage_1_of_4: "percentage 1 4 = Inr 25"
proof -
  have "percentage 1 4 = Inr (to_float (of_int 250 / 10))"
  proof (rule percentageI[where q = "1 / 4" and p = 25])
    show "to_float (of_int 1 / of_int 4) = 1 / 4"
      by (rule to_floatI[where e = "-2" and m = 4503599627370496]) simp_all
    show "to_float (1 / 4 * 100) = 25"
      by (rule to_floatI[where e = 4 and m = 7036874417766400]) simp_all
  qed simp_all
  moreover have "to_float (of_int 250 / 10) = 25"
    by (rule to_floatI[where e = 4 and m = 7036874417766400]) simp_all
  ultimately show ?thesis by simp
qed

lemma four_answers_count: "correct_count ascii_runtime four_answers = 1" "int (length four_answers) = 4"
  by code_simp+

lemma four_answers_topics:
  "first_occurrences (map (topic_of ''math'') (filter (\<lambda>a. \<not> judged_correct ascii_runtime a) four_answers)) =
     [''Fractions'', ''fractions'']"
  by code_simp

theorem evaluate_areas_witness:
  "four_answers \<noteq> [] \<and>
   (\<exists>r. evaluate ascii_runtime ''learner-001'' ''math'' four_answers = Inr r \<and> score r = 25 \<and>
        areas_to_improve r = [''Fractions'', ''fractions'', ''Fundamental concepts in math''])"
proof -
  have ne: "four_answers \<noteq> []" by (simp add: four_answers_def)
  from evaluate_areas[OF ne, where R = ascii_runtime and lid = "''learner-001''" and subj = "''math''"]
  obtain r where ev: "evaluate ascii_runtime ''learner-001'' ''math'' four_answers = Inr r"
    and sc: "percentage (correct_count ascii_runtime four_answers) (int (length four_answers)) = Inr (score r)"
    and ar: "let topics = first_occurrences
                       (map (topic_of ''math'') (filter (\<lambda>a. \<not> judged_correct ascii_runtime a) four_answers));
            areas = (if score r < 40 then topics @ [''Fundamental concepts in '' @ ''math'']
                     else topics)
        in areas_to_improve r = (if areas = [] then [EXCELLENT] else areas) \<and>
           (areas = [] \<longleftrightarrow> list_all (judged_correct ascii_runtime) four_answers)"
    by blast
  from sc have s: "score r = 25" by (simp add: four_answers_count percentage_1_of_4)
  from ar have "areas_to_improve r = [''Fractions'', ''fractions'', ''Fundamental concepts in math'']"
    by (simp add: four_answers_topics s Let_def)
  with ne ev s show ?thesis by blast
qed

text \<open>
  Ten answers, one for each correctness value that the specification lists: five are
  judged correct, the score is 50.0, and the areas are the topics of the other five. A
  single answer whose value is \<open>FALSE\<close> between two spaces has the score 0.0.
\<close>

lemma percentage_5_of_10: "percentage 5 10 = Inr 50"
proof -
  have "percentage 5 10 = Inr (to_float (of_int 500 / 10))"
  proof (rule percentageI[where q = "1 / 2" and p = 50])
    show "to_float (of_int 5 / of_int 10) = 1 / 2"
      by (rule to_floatI[where e = "-1" and m = 4503599627370496]) simp_all
    show "to_float (1 / 2 * 100) = 50"
      by (rule to_floatI[where e = 5 and m = 7036874417766400]) simp_all
  qed simp_all
  moreover have "to_float (of_int 500 / 10) = 50"
    by (rule to_floatI[where e = 5 and m = 7036874417766400]) simp_all
  ultimately show ?thesis by simp
qed

lemma ten_answers_count:
  "int (length (filter (spec_answer_correct ascii_runtime) ten_answers)) = 5"
  "int (length ten_answers) = 10"
  by code_simp+

lemma ten_answers_topics:
  "first_occurrences
     (map (topic_of ''math'') (filter (\<lambda>a. \<not> spec_answer_correct ascii_runtime a) ten_answers)) =
     [''t06'', ''t07'', ''t08'', ''t09'', ''t10'']"
  by code_simp

lemma shouted_false_incorrect:
  "\<not> spec_answer_correct ascii_runtime (flagged (PyStr '' FALSE '') ''t11'')"
  by code_simp

theorem evaluate_judgement_witness:
  "ten_answers \<noteq> [] \<and>
   (\<exists>r. evaluate ascii_runtime ''learner-001'' ''math'' ten_answers = Inr r \<and> score r = 50 \<and>
        areas_to_improve r = [''t06'', ''t07'', ''t08'', ''t09'', ''t10'']) \<and>
   (\<exists>r. evaluate ascii_runtime ''learner-001'' ''math'' [flagged (PyStr '' FALSE '') ''t11''] = Inr r \<and>
        score r = 0)"
proof -
  have ne: "ten_answers \<noteq> []" by (simp add: ten_answers_def)
  note t = evaluate_judgement[where R = ascii_runtime and lid = "''learner-001''"
      and subj = "''math''" and answers = ten_answers
      and a = "flagged (PyStr '' FALSE '') ''t11''"]
  from t ne obtain r where ev: "evaluate ascii_runtime ''learner-001'' ''math'' ten_answers = Inr r"
    and sc: "percentage (int (length (filter (spec_answer_correct ascii_runtime) ten_answers)))
               (int (length ten_answers)) = Inr (score r)"
    and ar: "let topics = first_occurrences
                           (map (topic_of ''math'')
                              (filter (\<lambda>a. \<not> spec_answer_correct ascii_runtime a) ten_answers));
                areas = (if score r < 40 then topics @ [''Fundamental concepts in '' @ ''math'']
                         else topics)
            in areas_to_improve r = (if areas = [] then [EXCELLENT] else areas)"
    by blast
  from sc have s: "score r = 50" by (simp add: ten_answers_count percentage_5_of_10)
  from ar have a: "areas_to_improve r = [''t06'', ''t07'', ''t08'', ''t09'', ''t10'']"
    by (simp add: ten_answers_topics s Let_def)
  from t obtain r1 where
    ev1: "evaluate ascii_runtime ''learner-001'' ''math'' [flagged (PyStr '' FALSE '') ''t11''] = Inr r1"
    and s1: "score r1 = (if spec_answer_correct ascii_runtime (flagged (PyStr '' FALSE '') ''t11'')
                         then 100 else 0)"
    by blast
  from s1 have "score r1 = 0" by (simp add: shouted_false_incorrect)
  with ev1 have "\<exists>r. evaluate ascii_runtime ''learner-001'' ''math''
                   [flagged (PyStr '' FALSE '') ''t11''] = Inr r \<and> score r = 0"
    by blast
  with ne ev s a show ?thesis by blast
qed

text \<open>
  C10. An answer record without the key \<open>correct\<close> is judged incorrect: the count of
  correct answers is what it is without the record, and the record's topic, or the
  subject if the record has no key \<open>topic\<close> either, is among the areas to improve.
\<close>

theorem evaluate_missing_correct:
  "a ''correct'' = None \<Longrightarrow>
   \<not> judged_correct R a \<and>
   correct_count R (xs @ a # ys) = correct_count R (xs @ ys) \<and>
   (\<exists>r. evaluate R lid subj (xs @ a # ys) = Inr r \<and>
        (case a ''topic'' of None \<Rightarrow> subj | Some t \<Rightarrow> py_str t) \<in> set (areas_to_improve r))"
proof -
  assume a: "a ''correct'' = None"
  then have j: "\<not> judged_correct R a" by (simp add: judged_correct_def dict_get_def)
  then have c: "correct_count R (xs @ a # ys) = correct_count R (xs @ ys)"
    by (simp add: correct_count_eq)
  let ?answers = "xs @ a # ys"
  have ne: "?answers \<noteq> []" by simp
  have t: "topic_of subj a = (case a ''topic'' of None \<Rightarrow> subj | Some t \<Rightarrow> py_str t)"
    by (simp add: topic_of_def dict_get_def split: option.splits)
  from j have m: "topic_of subj a \<in> set (collect_incorrect R subj ?answers [])"
    by (simp add: collect_incorrect_eq)
  from evaluate_nonempty[OF ne, where R = R and lid = lid and subj = subj]
  obtain sc where ev: "evaluate R lid subj ?answers =
            Inr \<lparr>result_learner_id = lid, result_subject = subj, score = sc,
                 areas_to_improve =
                   (let areas = (if sc < 40
                                 then collect_incorrect R subj ?answers [] @
                                        [''Fundamental concepts in '' @ subj]
                                 else collect_incorrect R subj ?answers [])
                    in if areas = [] then [EXCELLENT] else areas)\<rparr>"
    by blast
  let ?r = "\<lparr>result_learner_id = lid, result_subject = subj, score = sc,
                 areas_to_improve =
                   (let areas = (if sc < 40
                                 then collect_incorrect R subj ?answers [] @
                                        [''Fundamental concepts in '' @ subj]
                                 else collect_incorrect R subj ?answers [])
                    in if areas = [] then [EXCELLENT] else areas)\<rparr>"
  from m have "collect_incorrect R subj ?answers [] \<noteq> []" by auto
  with m have "topic_of subj a \<in> set (areas_to_improve ?r)" by (simp add: Let_def)
  with t have "(case a ''topic'' of None \<Rightarrow> subj | Some t \<Rightarrow> py_str t) \<in> set (areas_to_improve ?r)"
    by simp
  with ev have "\<exists>r. evaluate R lid subj ?answers = Inr r \<and>
        (case a ''topic'' of None \<Rightarrow> subj | Some t \<Rightarrow> py_str t) \<in> set (areas_to_improve r)"
    by blast
  with j c show ?thesis by blast
qed

text \<open>
  A right answer followed by a record with neither key: one correct answer of two, and
  the subject among the areas.
\<close>

lemma right_answer_count: "correct_count ascii_runtime [right_answer] = 1"
  by code_simp

theorem evaluate_missing_correct_witness:
  "bare_answer ''correct'' = None \<and> bare_answer ''topic'' = None \<and>
   correct_count ascii_runtime [right_answer, bare_answer] = 1 \<and>
   (\<exists>r. evaluate ascii_runtime ''learner-001'' ''math'' [right_answer, bare_answer] = Inr r \<and>
        ''math'' \<in> set (areas_to_improve r))"
proof -
  have b: "bare_answer ''correct'' = None" "bare_answer ''topic'' = None"
    by (simp_all add: bare_answer_def)
  from evaluate_missing_correct[where R = ascii_runtime and a = bare_answer and xs = "[right_answer]" and ys = "[]"
        and lid = "''learner-001''" and subj = "''math''"] b
  show ?thesis by (simp add: right_answer_count)
qed

subsection \<open>The score at a tie\<close>

text \<open>
  C9 as stated fails for 23 correct answers of 80. The percentage is 28.75, halfway
  between 28.7 and 28.8. The code divides first: 23/80 is not a binary fraction, its
  \<^verbatim>\<open>float\<close> times 100 is the \<^verbatim>\<open>float\<close> just below 28.75, and the score is 28.7. The
  expression of the specification, \<^verbatim>\<open>round(100 * 23 / 80, 1)\<close>, divides 2300 by 80, which is
  28.75 exactly, and rounds the tie to the even digit: 28.8.
\<close>

lemma percentage_23_of_80: "percentage 23 80 = Inr (to_float (287 / 10))"
proof -
  have "percentage 23 80 = Inr (to_float (of_int 287 / 10))"
  proof (rule percentageI[where q = "2589569785738035 / 9007199254740992"
                            and p = "8092405580431359 / 281474976710656"])
    show "to_float (of_int 23 / of_int 80) = 2589569785738035 / 9007199254740992"
      by (rule to_floatI[where e = "-2" and m = 5179139571476070]) simp_all
    show "to_float (2589569785738035 / 9007199254740992 * 100) =
            8092405580431359 / 281474976710656"
      by (rule to_floatI[where e = 4 and m = 8092405580431359]) simp_all
  qed simp_all
  then show ?thesis by simp
qed

lemma to_float_287: "to_float (287 / 10) = 8078331831595827 / 281474976710656"
  by (rule to_floatI[where e = 4 and m = 8078331831595827]) simp_all

lemma to_float_288: "to_float (288 / 10) = 8106479329266893 / 281474976710656"
  by (rule to_floatI[where e = 4 and m = 8106479329266893]) simp_all

lemma spec_score_23_of_80: "spec_score 23 80 = to_float (288 / 10)"
proof -
  have "to_float (of_int (100 * 23) / of_int 80) = 115 / 4"
    by (rule to_floatI[where e = 4 and m = 8092405580431360]) simp_all
  moreover have "round_half_even (115 / 4 * 10 ^ 1) = 288"
    using round_half_even_tie[of "115 / 4 * 10 ^ 1" 287] by simp
  ultimately show ?thesis by (simp only: spec_score_def py_round_def) simp
qed

lemma eighty_answers_count:
  "correct_count ascii_runtime eighty_answers = 23" "int (length eighty_answers) = 80"
proof -
  have "judged_correct ascii_runtime right_answer" "\<not> judged_correct ascii_runtime wrong_answer" by code_simp+
  then show "correct_count ascii_runtime eighty_answers = 23" "int (length eighty_answers) = 80"
    by (simp_all add: correct_count_eq eighty_answers_def)
qed

lemma remdups_replicate_57: "remdups (replicate 57 x) = [x]"
proof -
  have "remdups (replicate (Suc n) x) = [x]" for n
    by (induction n) simp_all
  from this[of 56] show ?thesis by simp
qed

lemma eighty_answers_topics: "collect_incorrect ascii_runtime ''math'' eighty_answers [] = [''Fractions'']"
proof -
  have "judged_correct ascii_runtime right_answer" "\<not> judged_correct ascii_runtime wrong_answer"
       "topic_of ''math'' wrong_answer = ''Fractions''" by code_simp+
  then show ?thesis
    by (simp add: collect_incorrect_eq eighty_answers_def first_occurrences_def
                  remdups_replicate_57)
qed

theorem score_23_of_80_counterexample:
  "evaluate ascii_runtime ''learner-001'' ''math'' eighty_answers =
     Inr \<lparr>result_learner_id = ''learner-001'', result_subject = ''math'',
          score = to_float (287 / 10),
          areas_to_improve = [''Fractions'', ''Fundamental concepts in math'']\<rparr> \<and>
   correct_count ascii_runtime eighty_answers = 23 \<and> int (length eighty_answers) = 80 \<and>
   spec_score 23 80 = to_float (288 / 10) \<and>
   to_float (287 / 10) < to_float (288 / 10)"
proof -
  have ne: "eighty_answers \<noteq> []" by (simp add: eighty_answers_def)
  have lt: "to_float (287 / 10) < 40" "to_float (287 / 10) < to_float (288 / 10)"
    unfolding to_float_287 to_float_288 by simp_all
  have "evaluate ascii_runtime ''learner-001'' ''math'' eighty_answers =
     Inr \<lparr>result_learner_id = ''learner-001'', result_subject = ''math'',
          score = to_float (287 / 10),
          areas_to_improve = [''Fractions'', ''Fundamental concepts in math'']\<rparr>"
    using ne lt(1)
    by (simp add: evaluate_def eighty_answers_count percentage_23_of_80 eighty_answers_topics
                  new_AssessmentResult_def to_float_287)
  with eighty_answers_count spec_score_23_of_80 lt(2) show ?thesis by simp
qed

subsection \<open>The score away from a tie\<close>

text \<open>
  The percentage times ten, \<open>1000 c / n\<close>, is a tie if it lies halfway between two
  integers, that is if \<open>2000 c\<close> is an odd multiple of \<open>n\<close>. Away from a tie it is at
  least \<open>1 / (2 n)\<close> away from every half-integer.
\<close>

lemma tie_gap:
  fixes c n k :: int
  assumes "0 < n" and "2000 * c mod (2 * n) \<noteq> n"
  shows "1 / (2 * of_int n) \<le> \<bar>1000 * of_int c / of_int n - of_int k - 1 / 2 :: rat\<bar>"
proof -
  define m where "m = 2000 * c - (2 * k + 1) * n"
  have "m \<noteq> 0"
  proof
    assume "m = 0"
    then have "2000 * c = n + k * (2 * n)" by (simp add: m_def algebra_simps)
    then have "2000 * c mod (2 * n) = n mod (2 * n)" by simp
    with assms(1) have "2000 * c mod (2 * n) = n" by simp
    with assms(2) show False by simp
  qed
  then have "1 \<le> \<bar>m\<bar>" by simp
  then have m: "(1::rat) \<le> \<bar>of_int m\<bar>" by (metis of_int_1 of_int_abs of_int_le_iff)
  from assms(1) have n: "(0::rat) < of_int n" by simp
  have "(1000 * of_int c / of_int n - of_int k - 1 / 2 :: rat) = of_int m / (2 * of_int n)"
    using n by (simp add: m_def field_simps)
  then have "\<bar>1000 * of_int c / of_int n - of_int k - 1 / 2 :: rat\<bar> =
             \<bar>of_int m\<bar> / (2 * of_int n)"
    using n by (simp add: abs_divide)
  with m n show ?thesis by (simp add: divide_right_mono)
qed

text \<open>A number that is nearer to \<open>x\<close> than \<open>x\<close> is to a half-integer rounds as \<open>x\<close> does.\<close>

lemma round_half_even_stable:
  assumes gap: "\<And>k. g \<le> \<bar>x - of_int k - 1 / 2\<bar>" and near: "\<bar>y - x\<bar> < g"
  shows "round_half_even y = round_half_even x"
proof -
  define k where "k = round_half_even x"
  from round_half_even_error[of x] have e: "\<bar>of_int k - x\<bar> \<le> 1 / 2" by (simp add: k_def)
  from gap[of k] have 1: "g \<le> \<bar>x - of_int k - 1 / 2\<bar>" .
  from gap[of "k - 1"] have 2: "g \<le> \<bar>x - of_int k + 1 / 2\<bar>" by simp
  from e 1 2 near have "\<bar>y - of_int k\<bar> < 1 / 2" by linarith
  then have "round_half_even y = k" by (rule round_half_even_near)
  then show ?thesis by (simp add: k_def)
qed

lemma to_float_error0:
  assumes "0 \<le> x"
  shows "\<bar>to_float x - x\<bar> \<le> x / 2 ^ 53"
proof (cases "x = 0")
  case True
  then show ?thesis by simp
next
  case False
  with assms have "0 < x" by simp
  then show ?thesis by (rule to_float_error)
qed

text \<open>
  Away from a tie, and for at most \<open>2 ^ 40\<close> answers, the two roundings to binary64 of
  the code, and the one of the specification's expression, are too small to move the
  percentage across a tie: both scores are the exact percentage rounded to one decimal.
\<close>

lemma score_away_from_tie:
  fixes c n :: int
  assumes "0 \<le> c" and "c \<le> n" and "0 < n" and "n \<le> 2 ^ 40"
    and "2000 * c mod (2 * n) \<noteq> n"
  shows "percentage c n =
           Inr (to_float (of_int (round_half_even (1000 * of_int c / of_int n)) / 10))"
    and "spec_score c n =
           to_float (of_int (round_half_even (1000 * of_int c / of_int n)) / 10)"
proof -
  define q :: rat where "q = of_int c / of_int n"
  define x :: rat where "x = 1000 * of_int c / of_int n"
  define g :: rat where "g = 1 / (2 * of_int n)"
  from assms have q: "0 \<le> q" "q \<le> 1" by (simp_all add: q_def)
  have x: "x = 1000 * q" by (simp add: x_def q_def)
  from assms(3,4) have "(of_int n :: rat) \<le> of_int (2 ^ 40)" by (simp only: of_int_le_iff)
  then have "(of_int n :: rat) \<le> 2 ^ 40" by simp
  moreover from assms(3) have n: "(0::rat) < of_int n" by simp
  ultimately have "1 / (2 * 2 ^ 40) \<le> g"
    unfolding g_def by (intro divide_left_mono) simp_all
  then have g: "4096 / 2 ^ 53 \<le> g" by simp
  have gap: "g \<le> \<bar>x - of_int k - 1 / 2\<bar>" for k
    unfolding g_def x_def using assms(3,5) by (rule tie_gap)
  \<comment> \<open>the code: the quotient, then the product\<close>
  define q1 where "q1 = to_float q"
  define p1 where "p1 = to_float (q1 * 100)"
  from to_float_error0[OF q(1)] have e1: "\<bar>q1 - q\<bar> \<le> q / 2 ^ 53" by (simp add: q1_def)
  from q(1) to_float_mono[of 0 q] have "0 \<le> q1" by (simp add: q1_def)
  then have "0 \<le> q1 * 100" by simp
  from to_float_error0[OF this] have e2: "\<bar>p1 - q1 * 100\<bar> \<le> q1 * 100 / 2 ^ 53"
    by (simp add: p1_def)
  from e1 have b1: "q1 \<le> q + q / 2 ^ 53" "q - q / 2 ^ 53 \<le> q1" by linarith+
  from e2 have b2: "p1 \<le> q1 * 100 + q1 * 100 / 2 ^ 53" "q1 * 100 - q1 * 100 / 2 ^ 53 \<le> p1"
    by linarith+
  from b1 b2 q g have "p1 * 10 - x < g" "x - p1 * 10 < g" unfolding x by simp_all
  then have "\<bar>p1 * 10 - x\<bar> < g" by linarith
  with gap have "round_half_even (p1 * 10) = round_half_even x"
    by (rule round_half_even_stable)
  with assms(3) show "percentage c n =
           Inr (to_float (of_int (round_half_even (1000 * of_int c / of_int n)) / 10))"
    by (simp add: percentage_eq float_mul_def py_round_def p1_def q1_def q_def x_def)
  \<comment> \<open>the specification's expression: the product, then the quotient\<close>
  define t where "t = to_float (100 * q)"
  from q(1) have "0 \<le> 100 * q" by simp
  from to_float_error0[OF this] have e3: "\<bar>t - 100 * q\<bar> \<le> 100 * q / 2 ^ 53"
    by (simp add: t_def)
  from e3 have b3: "t \<le> 100 * q + 100 * q / 2 ^ 53" "100 * q - 100 * q / 2 ^ 53 \<le> t"
    by linarith+
  from b3 q g have "t * 10 - x < g" "x - t * 10 < g" unfolding x by simp_all
  then have "\<bar>t * 10 - x\<bar> < g" by linarith
  with gap have "round_half_even (t * 10) = round_half_even x"
    by (rule round_half_even_stable)
  moreover have "of_int (100 * c) / of_int n = 100 * q" by (simp add: q_def)
  ultimately show "spec_score c n =
           to_float (of_int (round_half_even (1000 * of_int c / of_int n)) / 10)"
    by (simp add: spec_score_def py_round_def t_def x_def)
qed

text \<open>
  C9, as amended. For a non-empty answer list the score is
  \<^verbatim>\<open>round(correct_count / len(answers) * 100, 1)\<close> in binary64 arithmetic: the quotient
  rounded to a \<^verbatim>\<open>float\<close>, its product with 100 rounded to a \<^verbatim>\<open>float\<close>, and that rounded to
  one decimal. It lies between 0 and 100. If the percentage is not halfway between two
  one-decimal values, and the list has at most \<open>2 ^ 40\<close> answers, the score is the value of
  the specification's expression, and is the exact percentage rounded to one decimal.
  If every answer is judged correct, the score is 100.0.
\<close>

theorem evaluate_score:
  "answers \<noteq> [] \<Longrightarrow>
   \<exists>r. evaluate R lid subj answers = Inr r \<and>
       score r =
         py_round
           (float_mul
              (to_float (of_int (correct_count R answers) / of_int (int (length answers)))) 100)
           1 \<and>
       0 \<le> score r \<and> score r \<le> 100 \<and>
       (int (length answers) \<le> 2 ^ 40 \<and>
        2000 * correct_count R answers mod (2 * int (length answers)) \<noteq> int (length answers)
        \<longrightarrow>
          score r = spec_score (correct_count R answers) (int (length answers)) \<and>
          score r =
            to_float
              (of_int
                 (round_half_even
                    (1000 * of_int (correct_count R answers) / of_int (int (length answers)))) /
               10)) \<and>
       (list_all (judged_correct R) answers \<longrightarrow> score r = 100)"
proof -
  assume ne: "answers \<noteq> []"
  define c where "c = correct_count R answers"
  define n where "n = int (length answers)"
  from ne have n: "0 < n" by (simp add: n_def)
  from correct_count_range[of R answers] have c: "0 \<le> c" "c \<le> n" by (simp_all add: c_def n_def)
  from evaluate_nonempty[OF ne, where R = R and lid = lid and subj = subj]
  obtain r where ev: "evaluate R lid subj answers = Inr r"
    and sc: "percentage c n = Inr (score r)" and r: "0 \<le> score r" "score r \<le> 100"
    unfolding c_def n_def by force
  from sc n have 1: "score r = py_round (float_mul (to_float (of_int c / of_int n)) 100) 1"
    by (simp add: percentage_eq)
  have 2: "score r = spec_score c n \<and>
           score r = to_float (of_int (round_half_even (1000 * of_int c / of_int n)) / 10)"
    if "n \<le> 2 ^ 40 \<and> 2000 * c mod (2 * n) \<noteq> n"
    using score_away_from_tie[of c n] c n that sc by simp
  have 3: "score r = 100" if "list_all (judged_correct R) answers"
  proof -
    from that have "filter (judged_correct R) answers = answers" by (simp add: list_all_iff)
    then have "c = n" by (simp add: c_def n_def correct_count_eq)
    with sc n percentage_all_correct[of n] show ?thesis by simp
  qed
  from ev 1 r 2 3 show ?thesis unfolding c_def n_def by blast
qed

text \<open>One right answer of three: 33.3, by the code and by the specification's expression.\<close>

lemma three_answers_count: "correct_count ascii_runtime three_answers = 1" "int (length three_answers) = 3"
  by code_simp+

lemma to_float_333: "to_float (of_int (round_half_even (1000 * of_int 1 / of_int 3)) / 10) =
    to_float (333 / 10)"
proof -
  have "round_half_even (1000 * of_int 1 / of_int 3) = 333"
    by (rule round_half_even_near) simp
  then show ?thesis by simp
qed

theorem evaluate_score_witness:
  "three_answers \<noteq> [] \<and> int (length three_answers) \<le> 2 ^ 40 \<and>
   2000 * correct_count ascii_runtime three_answers mod (2 * int (length three_answers)) = 2 \<and>
   (\<exists>r. evaluate ascii_runtime ''learner-001'' ''math'' three_answers = Inr r \<and>
        score r = to_float (333 / 10) \<and> score r = spec_score 1 3 \<and>
        0 \<le> score r \<and> score r \<le> 100)"
proof -
  have ne: "three_answers \<noteq> []" by (simp add: three_answers_def)
  have h: "int (length three_answers) \<le> 2 ^ 40"
    "2000 * correct_count ascii_runtime three_answers mod (2 * int (length three_answers)) = 2"
    by (simp_all add: three_answers_count)
  from evaluate_score[OF ne, where R = ascii_runtime and lid = "''learner-001''" and subj = "''math''"]
  obtain r where ev: "evaluate ascii_runtime ''learner-001'' ''math'' three_answers = Inr r"
    and b: "0 \<le> score r" "score r \<le> 100"
    and t: "int (length three_answers) \<le> 2 ^ 40 \<and>
        2000 * correct_count ascii_runtime three_answers mod (2 * int (length three_answers)) \<noteq>
          int (length three_answers)
        \<longrightarrow>
          score r = spec_score (correct_count ascii_runtime three_answers) (int (length three_answers)) \<and>
          score r =
            to_float
              (of_int
                 (round_half_even
                    (1000 * of_int (correct_count ascii_runtime three_answers) /
                     of_int (int (length three_answers)))) /
               10)"
    by blast
  from t have "score r = spec_score 1 3 \<and>
      score r = to_float (of_int (round_half_even (1000 * of_int 1 / of_int 3)) / 10)"
    by (simp add: three_answers_count)
  then have "score r = spec_score 1 3" "score r = to_float (333 / 10)"
    unfolding to_float_333 by blast+
  with ne h ev b show ?thesis by blast
qed

end
